theory Spec2Isabelle
  imports
    Complex_Main
    "HOL-Library.Sublist"
    "HOL-Library.Char_ord"
    "HOL-Library.List_Lexorder"
    "HOL-Library.Product_Lexorder"
    "HOL-Library.Multiset"
begin

section \<open>Values, errors and strings\<close>

text \<open>
  The classifier of \<^verbatim>\<open>morph_streamlit.py\<close> works on a dictionary
  \<^verbatim>\<open>params: Dict[str, Any]\<close>. A value stored in it is a number or a text; a key that
  is missing and a key that holds \<^verbatim>\<open>None\<close> are both read through \<^verbatim>\<open>params.get\<close>
  and are the same \<open>None\<close> here. Python floats are modelled as exact reals: the
  special values \<^verbatim>\<open>inf\<close> and \<^verbatim>\<open>nan\<close> and rounding are outside the model.
  A Python string is modelled by its UTF-8 bytes; \<^verbatim>\<open>lower\<close>, \<^verbatim>\<open>strip\<close> and
  \<^verbatim>\<open>float\<close> act on the ASCII range.
\<close>

datatype pyval = Num real | Str string

type_synonym params = "string \<Rightarrow> pyval option"

datatype error = ValueError | KeyError | IndexError | AttributeError | Unmodelled

definition bind_e :: "error + 'a \<Rightarrow> ('a \<Rightarrow> error + 'b) \<Rightarrow> error + 'b" where
  "bind_e m f = (case m of Inl e \<Rightarrow> Inl e | Inr x \<Rightarrow> f x)"

definition is_space :: "char \<Rightarrow> bool" where
  "is_space c \<longleftrightarrow> c \<in> set [CHR '' '', CHR 0x09, CHR 0x0A, CHR 0x0B, CHR 0x0C, CHR 0x0D,
                              CHR 0x1C, CHR 0x1D, CHR 0x1E, CHR 0x1F]"

definition strip :: "string \<Rightarrow> string" where
  "strip s = rev (dropWhile is_space (rev (dropWhile is_space s)))"

definition lower_char :: "char \<Rightarrow> char" where
  "lower_char c = (if c \<in> set ''ABCDEFGHIJKLMNOPQRSTUVWXYZ''
                   then char_of (of_char c + (32::nat)) else c)"

definition lower :: "string \<Rightarrow> string" where
  "lower s = map lower_char s"

text \<open>\<^verbatim>\<open>s.replace(old, new)\<close> for a non-empty \<open>old\<close>: left to right, without overlap.\<close>

fun replace :: "string \<Rightarrow> string \<Rightarrow> string \<Rightarrow> string" where
  "replace old new [] = []"
| "replace old new (c # cs) =
     (if old \<noteq> [] \<and> prefix old (c # cs)
      then new @ replace old new (drop (length old - 1) cs)
      else c # replace old new cs)"

text \<open>\<^verbatim>\<open>s.split(sep)\<close> for a separator of one character.\<close>

fun split_on :: "char \<Rightarrow> string \<Rightarrow> string list" where
  "split_on sep [] = [[]]"
| "split_on sep (c # cs) =
     (case split_on sep cs of
        [] \<Rightarrow> [[c]]
      | p # ps \<Rightarrow> if c = sep then [] # p # ps else (c # p) # ps)"

subsection \<open>The builtin \<^verbatim>\<open>float\<close> on a string\<close>

text \<open>
  \<^verbatim>\<open>float(s)\<close> strips white space and reads
  \<^verbatim>\<open>[sign] (digitpart ["." [digitpart]] | "." digitpart) [("e"|"E") [sign] digitpart]\<close>,
  where a digitpart is digits with single underscores between them. Any other text
  raises \<^verbatim>\<open>ValueError\<close>, which is \<open>None\<close> here. The literals \<^verbatim>\<open>inf\<close>,
  \<^verbatim>\<open>infinity\<close> and \<^verbatim>\<open>nan\<close> have no real value and are not read by this model.
\<close>

definition is_digit :: "char \<Rightarrow> bool" where
  "is_digit c \<longleftrightarrow> c \<in> set ''0123456789''"

definition digit_val :: "char \<Rightarrow> nat" where
  "digit_val c = of_char c - 48"

fun no_double_underscore :: "string \<Rightarrow> bool" where
  "no_double_underscore (a # b # cs) =
     (\<not> (a = CHR ''_'' \<and> b = CHR ''_'') \<and> no_double_underscore (b # cs))"
| "no_double_underscore _ = True"

definition digitpart :: "string \<Rightarrow> bool" where
  "digitpart s \<longleftrightarrow> s \<noteq> [] \<and> is_digit (hd s) \<and> is_digit (last s)
                   \<and> (\<forall>c \<in> set s. is_digit c \<or> c = CHR ''_'') \<and> no_double_underscore s"

definition digits_nat :: "string \<Rightarrow> nat" where
  "digits_nat s = foldl (\<lambda>a c. 10 * a + digit_val c) 0 (filter is_digit s)"

definition num_digits :: "string \<Rightarrow> nat" where
  "num_digits s = length (filter is_digit s)"

definition split_sign :: "string \<Rightarrow> bool \<times> string" where
  "split_sign s = (case s of
       c # cs \<Rightarrow> if c = CHR ''-'' then (True, cs) else if c = CHR ''+'' then (False, cs) else (False, s)
     | [] \<Rightarrow> (False, s))"

definition is_exp_mark :: "char \<Rightarrow> bool" where
  "is_exp_mark c \<longleftrightarrow> c = CHR ''e'' \<or> c = CHR ''E''"

definition parse_mantissa :: "string \<Rightarrow> (nat \<times> nat) option" where
  \<comment> \<open>the digits read as one natural number, and how many of them follow the point\<close>
  "parse_mantissa m =
     (let ip = takeWhile (\<lambda>c. c \<noteq> CHR ''.'') m; rest = dropWhile (\<lambda>c. c \<noteq> CHR ''.'') m in
      case rest of
        [] \<Rightarrow> if digitpart ip then Some (digits_nat ip, 0) else None
      | _ # fp \<Rightarrow>
          if (ip = [] \<or> digitpart ip) \<and> (fp = [] \<or> digitpart fp) \<and> \<not> (ip = [] \<and> fp = [])
          then Some (digits_nat (ip @ fp), num_digits fp) else None)"

definition parse_exponent :: "string \<Rightarrow> int option" where
  "parse_exponent e =
     (case e of
        [] \<Rightarrow> Some 0
      | _ # ds \<Rightarrow>
          (let (neg, body) = split_sign ds in
           if digitpart body
           then Some (if neg then - int (digits_nat body) else int (digits_nat body))
           else None))"

definition pow10 :: "int \<Rightarrow> real" where
  "pow10 k = (if 0 \<le> k then 10 ^ nat k else 1 / 10 ^ nat (- k))"

definition py_float :: "string \<Rightarrow> real option" where
  "py_float s0 =
     (let (neg, body) = split_sign (strip s0);
          m = takeWhile (\<lambda>c. \<not> is_exp_mark c) body;
          e = dropWhile (\<lambda>c. \<not> is_exp_mark c) body in
      case parse_mantissa m of
        None \<Rightarrow> None
      | Some (digs, nfrac) \<Rightarrow>
          (case parse_exponent e of
             None \<Rightarrow> None
           | Some k \<Rightarrow>
               (let v = real digs * pow10 (k - int nfrac) in
                Some (if neg then - v else v))))"

section \<open>Range specifications\<close>

datatype kind = K_na | K_ge | K_le | K_gt | K_lt | K_range | K_eq

type_synonym bounds = "real option \<times> real option \<times> kind"

definition en_dash :: string where "en_dash = [CHR 0xE2, CHR 0x80, CHR 0x93]"
definition em_dash :: string where "em_dash = [CHR 0xE2, CHR 0x80, CHR 0x94]"
definition ge_sign :: string where "ge_sign = [CHR 0xE2, CHR 0x89, CHR 0xA5]"
definition le_sign :: string where "le_sign = [CHR 0xE2, CHR 0x89, CHR 0xA4]"

definition normalize_glyphs :: "string \<Rightarrow> string" where
  "normalize_glyphs s = replace le_sign ''<='' (replace ge_sign ''>='' (replace em_dash ''-'' (replace en_dash ''-'' s)))"

text \<open>
  \<^verbatim>\<open>float(...)\<close> outside a \<^verbatim>\<open>try\<close>: a text that is no number raises.
\<close>

definition float_or_raise :: "string \<Rightarrow> error + real" where
  "float_or_raise s = (case py_float s of None \<Rightarrow> Inl ValueError | Some x \<Rightarrow> Inr x)"

definition parse_eq :: "string \<Rightarrow> bounds option" where
  \<comment> \<open>lines 37 to 41\<close>
  "parse_eq s = (case py_float s of Some v \<Rightarrow> Some (Some v, Some v, K_eq) | None \<Rightarrow> None)"

definition parse_range :: "string \<Rightarrow> bounds option" where
  \<comment> \<open>lines 30 to 36; \<open>None\<close> stands for falling through to line 37\<close>
  "parse_range s =
     (if CHR ''-'' \<in> set s then
        (let parts = map strip (split_on (CHR ''-'') s) in
         case parts of
           [a, b] \<Rightarrow>
             if a \<noteq> [] \<and> b \<noteq> [] then
               (case (py_float a, py_float b) of
                  (Some lo, Some hi) \<Rightarrow> Some (Some lo, Some hi, K_range)
                | _ \<Rightarrow> None)
             else None
         | _ \<Rightarrow> None)
      else None)"

text \<open>
  \<^verbatim>\<open>parse_bounds\<close> (lines 15 to 41). The argument is a string, so the guard
  \<^verbatim>\<open>spec is None\<close> of line 16 never holds. \<open>Inr None\<close> is the returned \<^verbatim>\<open>None\<close>,
  \<open>Inl e\<close> an exception that leaves the function.
\<close>

definition parse_bounds :: "string \<Rightarrow> error + bounds option" where
  "parse_bounds spec =
     (let s = strip spec in
      if s = [] \<or> s = ''-'' \<or> lower s \<in> set [''na'', ''n/a'', ''none'']
      then Inr (Some (None, None, K_na))
      else
        (let s = normalize_glyphs s in
         if prefix ''>='' s then bind_e (float_or_raise (drop 2 s)) (\<lambda>v. Inr (Some (Some v, None, K_ge)))
         else if prefix ''<='' s then bind_e (float_or_raise (drop 2 s)) (\<lambda>v. Inr (Some (None, Some v, K_le)))
         else if prefix ''>'' s then bind_e (float_or_raise (drop 1 s)) (\<lambda>v. Inr (Some (Some v, None, K_gt)))
         else if prefix ''<'' s then bind_e (float_or_raise (drop 1 s)) (\<lambda>v. Inr (Some (None, Some v, K_lt)))
         else
           (case parse_range s of
              Some b \<Rightarrow> Inr (Some b)
            | None \<Rightarrow> Inr (parse_eq s))))"

text \<open>
  \<^verbatim>\<open>value_in_spec\<close> (lines 43 to 64): \<open>Inr None\<close> is the returned \<^verbatim>\<open>None\<close>. The
  defaults \<^verbatim>\<open>float("-inf")\<close> and \<^verbatim>\<open>float("inf")\<close> for a missing bound make the
  comparison true.
\<close>

definition value_in_spec :: "real option \<Rightarrow> string \<Rightarrow> error + bool option" where
  "value_in_spec v spec =
     bind_e (parse_bounds spec) (\<lambda>pr.
       case pr of
         None \<Rightarrow> Inr None
       | Some (lo, hi, kind) \<Rightarrow>
           (case v of
              None \<Rightarrow> Inr (Some (if kind \<noteq> K_na then False else True))
            | Some x \<Rightarrow>
                (case kind of
                   K_na \<Rightarrow> Inr (Some True)
                 | K_range \<Rightarrow> Inr (Some ((lo = None \<or> x \<ge> the lo) \<and> (hi = None \<or> x \<le> the hi)))
                 | K_gt \<Rightarrow> Inr (Some (case lo of Some l \<Rightarrow> x > l | None \<Rightarrow> True))
                 | K_lt \<Rightarrow> Inr (Some (case hi of Some h \<Rightarrow> x < h | None \<Rightarrow> True))
                 | K_ge \<Rightarrow> Inr (Some (case lo of Some l \<Rightarrow> x \<ge> l | None \<Rightarrow> True))
                 | K_le \<Rightarrow> Inr (Some (case hi of Some h \<Rightarrow> x \<le> h | None \<Rightarrow> True))
                 | K_eq \<Rightarrow> Inr (Some (\<bar>x - (case lo of Some l \<Rightarrow> l | None \<Rightarrow> x)\<bar> < 1 / 10 ^ 9)))))"

text \<open>
  \<^verbatim>\<open>range_distance\<close> (lines 66 to 92). With a missing bound the source takes an
  infinite one, and the result is then \<open>0\<close> (\<^verbatim>\<open>max(0.0, -inf)\<close>, or inside the band).
\<close>

definition range_distance :: "real option \<Rightarrow> string \<Rightarrow> error + real" where
  "range_distance v spec =
     bind_e (parse_bounds spec) (\<lambda>pr.
       case pr of
         None \<Rightarrow> Inr 0
       | Some (lo, hi, kind) \<Rightarrow>
           (case v of
              None \<Rightarrow> Inr (1 / 2)
            | Some x \<Rightarrow>
                (if kind = K_na then Inr 0
                 else if kind \<in> {K_gt, K_ge} then
                   Inr (case lo of Some bound \<Rightarrow> max 0 (bound - x) | None \<Rightarrow> 0)
                 else if kind \<in> {K_lt, K_le} then
                   Inr (case hi of Some bound \<Rightarrow> max 0 (x - bound) | None \<Rightarrow> 0)
                 else if kind = K_eq then
                   Inr \<bar>x - (case lo of Some target \<Rightarrow> target | None \<Rightarrow> x)\<bar>
                 else if kind = K_range then
                   (if (case lo of Some l \<Rightarrow> l \<le> x | None \<Rightarrow> True)
                       \<and> (case hi of Some h \<Rightarrow> x \<le> h | None \<Rightarrow> True)
                    then Inr 0
                    else if (case lo of Some l \<Rightarrow> x < l | None \<Rightarrow> False)
                    then Inr (the lo - x)
                    else Inr (x - the hi))
                 else Inr 0)))"

text \<open>
  \<^verbatim>\<open>to_num\<close> (lines 94 to 103): a number goes through \<^verbatim>\<open>float(str(val))\<close>
  unchanged, a text is stripped and read, and every failure is caught.
\<close>

definition to_num :: "pyval option \<Rightarrow> real option" where
  "to_num val =
     (case val of
        None \<Rightarrow> None
      | Some (Num x) \<Rightarrow> Some x
      | Some (Str t) \<Rightarrow> (let s = strip t in if s = [] then None else py_float s))"

section \<open>The reference table and the scorer\<close>

text \<open>\<^verbatim>\<open>LCZ_TABLE\<close> (lines 189 to 206), in the order of the dictionary literal.\<close>

definition row :: "string list \<Rightarrow> (string \<times> string) list" where
  "row specs = zip [''SVF'', ''SCR'', ''FAR'', ''BSF'', ''ISF'', ''PSF'',
                    ''BH'', ''BHD'', ''BHV'', ''AL'', ''TH'', ''TR''] specs"

definition LCZ_TABLE :: "(string \<times> (string \<times> string) list) list" where
  "LCZ_TABLE =
    [(''1'',  row [''0.2-0.4'', ''>2'', ''>=3'', ''30-45'', ''40-60'', ''<10'', ''>=24'', ''-'', ''-'', ''0.1-0.2'', ''-'', ''8'']),
     (''2'',  row [''0.3-0.6'', ''0.75-2'', ''1.5-3'', ''30-45'', ''30-50'', ''<20'', ''9-24'', ''<9'', ''-'', ''0.1-0.2'', ''-'', ''6-7'']),
     (''3'',  row [''0.2-0.6'', ''0.75-1.5'', ''1-1.5'', ''40-70'', ''20-50'', ''<30'', ''<=9'', ''-'', ''-'', ''0.1-0.2'', ''-'', ''6'']),
     (''34'', row [''0.2-0.4'', ''>2'', ''1.2-2.5'', ''25-30'', ''40-60'', ''<10'', ''12-40'', ''-'', ''>145'', ''0.12-0.25'', ''-'', ''8'']),
     (''4'',  row [''0.5-0.7'', ''0.75-1.25'', ''2-3'', ''20-30'', ''30-40'', ''30-40'', ''>=24'', ''-'', ''-'', ''0.12-0.25'', ''-'', ''7-8'']),
     (''35'', row [''0.3-0.6'', ''0.75-2'', ''1.2-2'', ''20-30'', ''30-50'', ''<20'', ''12-20'', ''-'', ''<=145'', ''0.1-0.2'', ''-'', ''6-7'']),
     (''5'',  row [''0.5-0.8'', ''0.3-0.75'', ''1.2-2'', ''20-30'', ''30-50'', ''20-40'', ''9-24'', ''-'', ''-'', ''0.12-0.25'', ''-'', ''5-6'']),
     (''6'',  row [''0.6-0.9'', ''0.3-0.75'', ''<0.3'', ''20-40'', ''20-50'', ''30-60'', ''<=9'', ''-'', ''-'', ''0.12-0.25'', ''-'', ''5'']),
     (''8'',  row [''>0.7'', ''0.1-0.3'', ''0.8-2.5'', ''30-50'', ''40-50'', ''<20'', ''<=9'', ''-'', ''-'', ''0.15-0.25'', ''-'', ''5'']),
     (''8B'', row [''>0.7'', ''0.1-0.3'', ''0.8-2.5'', ''30-50'', ''40-50'', ''<20'', ''<=9'', ''-'', ''-'', ''0.12-0.25'', ''-'', ''5'']),
     (''9'',  row [''>0.8'', ''0.1-0.25'', ''<=0.3'', ''<10'', ''<20'', ''60-80'', ''<=9'', ''-'', ''-'', ''0.12-0.25'', ''-'', ''5-6'']),
     (''A'',  row [''<0.4'', ''>1'', ''-'', ''<10'', ''<10'', ''>90'', ''3-30'', ''-'', ''-'', ''0.1-0.2'', ''Dense trees'', ''8'']),
     (''B'',  row [''0.5-0.8'', ''0.25-0.75'', ''-'', ''<10'', ''<10'', ''>90'', ''3-15'', ''-'', ''-'', ''0.15-0.25'', ''Sparse trees'', ''5-6'']),
     (''C'',  row [''0.7-0.9'', ''0.25-1.0'', ''-'', ''<10'', ''<10'', ''>90'', ''<2'', ''-'', ''-'', ''0.15-0.3'', ''Dense bush'', ''4-5'']),
     (''D'',  row [''>0.9'', ''<0.1'', ''-'', ''<10'', ''<10'', ''>90'', ''<1'', ''-'', ''-'', ''0.15-0.25'', ''Ground cover area'', ''3-4'']),
     (''G'',  row [''>0.9'', ''<0.1'', ''-'', ''<10'', ''<10'', ''>90'', ''-'', ''-'', ''-'', ''0.02-0.10'', ''-'', ''1''])]"

text \<open>
  The truth value of a dictionary entry (\<^verbatim>\<open>if th\<close>, \<^verbatim>\<open>if not TH\<close>): \<^verbatim>\<open>None\<close>, the
  empty text and zero are false.
\<close>

definition truthy :: "pyval option \<Rightarrow> bool" where
  "truthy v = (case v of None \<Rightarrow> False | Some (Str t) \<Rightarrow> t \<noteq> [] | Some (Num x) \<Rightarrow> x \<noteq> 0)"

text \<open>
  The \<^verbatim>\<open>TH\<close> test of line 377,
  \<^verbatim>\<open>th and str(spec_str).lower() in str(th).lower()\<close>. The text \<^verbatim>\<open>str\<close> prints for
  a number is not modelled: a non-zero number under \<^verbatim>\<open>TH\<close> gives \<open>Unmodelled\<close>.
\<close>

definition th_match :: "pyval option \<Rightarrow> string \<Rightarrow> error + bool" where
  "th_match th spec_str =
     (if \<not> truthy th then Inr False
      else case th of
             Some (Str t) \<Rightarrow> Inr (sublist (lower spec_str) (lower t))
           | _ \<Rightarrow> Inl Unmodelled)"

text \<open>The loop body of \<^verbatim>\<open>score_class\<close> (lines 374 to 383) and the loop.\<close>

definition score_item :: "params \<Rightarrow> string \<times> string \<Rightarrow> nat \<times> real \<Rightarrow> error + nat \<times> real" where
  "score_item p item acc =
     (case (item, acc) of ((k, spec_str), (hits, dst)) \<Rightarrow>
        if k = ''TH'' then
          bind_e (th_match (p ''TH'') spec_str) (\<lambda>m. Inr (if m then hits + 1 else hits, dst))
        else
          (let val = to_num (p k) in
           bind_e (value_in_spec val spec_str) (\<lambda>inside.
           bind_e (range_distance val spec_str) (\<lambda>d.
             Inr (if inside = Some True then hits + 1 else hits, dst + d)))))"

fun score_items :: "params \<Rightarrow> (string \<times> string) list \<Rightarrow> nat \<times> real \<Rightarrow> error + nat \<times> real" where
  "score_items p [] acc = Inr acc"
| "score_items p (item # rest) acc = bind_e (score_item p item acc) (score_items p rest)"

definition score_class :: "params \<Rightarrow> string \<Rightarrow> error + nat \<times> real" where
  "score_class p l =
     (case map_of LCZ_TABLE l of
        None \<Rightarrow> Inl KeyError
      | Some spec \<Rightarrow> score_items p spec (0, 0))"

type_synonym scored = "string \<times> nat \<times> real"

fun score_all :: "params \<Rightarrow> string list \<Rightarrow> error + scored list" where
  "score_all p [] = Inr []"
| "score_all p (l # ls) =
     bind_e (score_class p l) (\<lambda>(h, d).
     bind_e (score_all p ls) (\<lambda>rest. Inr ((l, h, d) # rest)))"

text \<open>The sort key of line 393, \<^verbatim>\<open>(-x[1], x[2], x[0])\<close>, compared as Python compares tuples.\<close>

definition rank_key :: "scored \<Rightarrow> int \<times> real \<times> string" where
  "rank_key x = (case x of (l, h, d) \<Rightarrow> (- int h, d, l))"

text \<open>
  \<^verbatim>\<open>best_matches\<close> (lines 386 to 394). \<^verbatim>\<open>list.sort\<close> is stable, as \<open>sort_key\<close> is.
\<close>

definition best_matches :: "params \<Rightarrow> string list option \<Rightarrow> nat \<Rightarrow> error + scored list" where
  "best_matches p candidates topk =
     (let cands = (case candidates of None \<Rightarrow> map fst LCZ_TABLE | Some cs \<Rightarrow> cs) in
      bind_e (score_all p cands) (\<lambda>scored. Inr (take topk (sort_key rank_key scored))))"

section \<open>The rules of the land-cover branch\<close>

text \<open>
  A line of the trace is one of the message templates of the source, with the values
  its f-string prints: a datatype, one constructor for each template. \<open>PyNone\<close> is the
  value \<^verbatim>\<open>None\<close>, which \<^verbatim>\<open>prefer_water_with_AL\<close> returns as its reason when it
  keeps the code.
\<close>

datatype trace_line =
    T_built                      \<comment> \<open>\<^verbatim>\<open>Built-up (BSF >=10 or ISF >=10)\<close>\<close>
  | T_lcz9                       \<comment> \<open>\<^verbatim>\<open>BSF < 20 and SVF > 0.8 => LCZ-9\<close>\<close>
  | T_bsf40                      \<comment> \<open>\<^verbatim>\<open>BSF >= 40 -> {1,2,3,34,35}\<close>\<close>
  | T_lcz1                       \<comment> \<open>\<^verbatim>\<open>BH >= 25 => LCZ-1\<close>\<close>
  | T_midrise                    \<comment> \<open>\<^verbatim>\<open>Decide among LCZ-2 / LCZ-34 / LCZ-35 using BHD and BHV\<close>\<close>
  | T_lcz2 real                  \<comment> \<open>\<^verbatim>\<open>BHD={BHD} < 9 => LCZ-2\<close>\<close>
  | T_lcz34 real                 \<comment> \<open>\<^verbatim>\<open>BHV={BHV} > 145 => LCZ-34\<close>\<close>
  | T_lcz35 real                 \<comment> \<open>\<^verbatim>\<open>BHV={BHV} <= 145 => LCZ-35\<close>\<close>
  | T_midrise_fallback           \<comment> \<open>\<^verbatim>\<open>BHD/BHV missing => fallback table scoring among {2,34,35}\<close>\<close>
  | T_lcz3                       \<comment> \<open>\<^verbatim>\<open>BH < 10 => LCZ-3\<close>\<close>
  | T_bsf20to40                  \<comment> \<open>\<^verbatim>\<open>20% <= BSF < 40 (or missing high) -> {4,5,6,8,8B}\<close>\<close>
  | T_lcz4                       \<comment> \<open>\<^verbatim>\<open>BH >= 25 => LCZ-4\<close>\<close>
  | T_lcz5                       \<comment> \<open>\<^verbatim>\<open>10 <= BH < 25 => LCZ-5\<close>\<close>
  | T_lowrise                    \<comment> \<open>\<^verbatim>\<open>BH < 10 => decide with SCR & FAR\<close>\<close>
  | T_lcz6                       \<comment> \<open>\<^verbatim>\<open>0.3 <= SCR <= 0.75 and FAR <= 0.3 => LCZ-6\<close>\<close>
  | T_lcz8                       \<comment> \<open>\<^verbatim>\<open>PSF < 10 => LCZ-8\<close>\<close>
  | T_lcz8B                      \<comment> \<open>\<^verbatim>\<open>PSF >= 10 => LCZ-8B\<close>\<close>
  | T_land                       \<comment> \<open>\<^verbatim>\<open>Land-cover branch (BSF <10 and ISF <10)\<close>\<close>
  | T_AL_water real              \<comment> \<open>\<^verbatim>\<open>AL={AL} within 0.02-0.10 (water-like) => LCZ-G\<close>\<close>
  | T_land_fallback              \<comment> \<open>\<^verbatim>\<open>Insufficient TH/TR/AL - fell back to land-cover table scoring.\<close>\<close>
  | R_TH_missing                 \<comment> \<open>\<^verbatim>\<open>TH not provided\<close>\<close>
  | R_TH_match string string     \<comment> \<open>\<^verbatim>\<open>TH = '{TH}' -> LCZ-{code}\<close>\<close>
  | R_TH_nomatch string          \<comment> \<open>\<^verbatim>\<open>TH provided ('{TH}') but no keyword match\<close>\<close>
  | R_TR_missing                 \<comment> \<open>\<^verbatim>\<open>TR not provided\<close>\<close>
  | R_TR_in int string           \<comment> \<open>\<^verbatim>\<open>TR = {int(TR)} in {label} -> LCZ-{code}\<close>\<close>
  | R_TR_nearest int string      \<comment> \<open>\<^verbatim>\<open>TR = {int(TR)} nearest to {label} -> LCZ-{code}\<close>\<close>
  | R_water real                 \<comment> \<open>\<^verbatim>\<open>AL={AL} (0.02-0.10) and TR~1 => LCZ-G (water)\<close>\<close>
  | PyNone

text \<open>\<^verbatim>\<open>TH_TO_LCZ\<close> (lines 398 to 414), in the order of the dictionary literal.\<close>

definition TH_TO_LCZ :: "(string \<times> string) list" where
  "TH_TO_LCZ =
    [(''dense tree'', ''A''), (''dense'', ''A''),
     (''scattered tree'', ''B''), (''sparse tree'', ''B''), (''scattered'', ''B''), (''sparse'', ''B''),
     (''bush'', ''C''), (''scrub'', ''C''),
     (''low plant'', ''D''), (''grass'', ''D''), (''ground cover'', ''D''),
     (''water'', ''G''), (''lake'', ''G''), (''river'', ''G'')]"

text \<open>
  \<^verbatim>\<open>TR_BANDS\<close> (lines 417 to 423): code, lower and upper end. The label text of a band
  is fixed by its code and is left out.
\<close>

definition TR_BANDS :: "(string \<times> real \<times> real) list" where
  "TR_BANDS = [(''A'', 7.5, 8.5), (''B'', 4.5, 6.5), (''C'', 3.5, 5.0), (''D'', 2.5, 4.0), (''G'', 0.5, 1.5)]"

fun first_keyword :: "(string \<times> string) list \<Rightarrow> string \<Rightarrow> string option" where
  "first_keyword [] s = None"
| "first_keyword ((key, code) # rest) s = (if sublist key s then Some code else first_keyword rest s)"

text \<open>
  \<^verbatim>\<open>infer_lcz_from_TH\<close> (lines 425 to 432). \<^verbatim>\<open>TH.lower()\<close> on a non-zero number
  raises \<^verbatim>\<open>AttributeError\<close>.
\<close>

definition infer_lcz_from_TH :: "pyval option \<Rightarrow> error + string option \<times> trace_line" where
  "infer_lcz_from_TH TH =
     (if \<not> truthy TH then Inr (None, R_TH_missing)
      else case TH of
             Some (Str t) \<Rightarrow>
               (case first_keyword TH_TO_LCZ (lower t) of
                  Some code \<Rightarrow> Inr (Some code, R_TH_match t code)
                | None \<Rightarrow> Inr (None, R_TH_nomatch t))
           | _ \<Rightarrow> Inl AttributeError)"

text \<open>\<^verbatim>\<open>int(TR)\<close> rounds towards zero.\<close>

definition py_int :: "real \<Rightarrow> int" where
  "py_int x = (if 0 \<le> x then \<lfloor>x\<rfloor> else \<lceil>x\<rceil>)"

fun first_band :: "(string \<times> real \<times> real) list \<Rightarrow> real \<Rightarrow> string option" where
  "first_band [] x = None"
| "first_band ((code, lo, hi) # rest) x = (if lo \<le> x \<and> x \<le> hi then Some code else first_band rest x)"

text \<open>\<^verbatim>\<open>min(xs, key=f)\<close> keeps the first of the least elements.\<close>

fun min_by :: "('a \<Rightarrow> real) \<Rightarrow> 'a \<Rightarrow> 'a list \<Rightarrow> 'a" where
  "min_by f best [] = best"
| "min_by f best (x # xs) = min_by f (if f x < f best then x else best) xs"

definition band_gap :: "real \<Rightarrow> string \<times> real \<times> real \<Rightarrow> real" where
  "band_gap x b = (case b of (code, lo, hi) \<Rightarrow> min \<bar>x - lo\<bar> \<bar>x - hi\<bar>)"

text \<open>\<^verbatim>\<open>infer_lcz_from_TR\<close> (lines 434 to 443).\<close>

definition infer_lcz_from_TR :: "real option \<Rightarrow> error + string option \<times> trace_line" where
  "infer_lcz_from_TR TR =
     (case TR of
        None \<Rightarrow> Inr (None, R_TR_missing)
      | Some x \<Rightarrow>
          (case first_band TR_BANDS x of
             Some code \<Rightarrow> Inr (Some code, R_TR_in (py_int x) code)
           | None \<Rightarrow>
               (case TR_BANDS of
                  [] \<Rightarrow> Inl ValueError
                | b # bs \<Rightarrow> (case min_by (band_gap x) b bs of (code, lo, hi) \<Rightarrow>
                              Inr (Some code, R_TR_nearest (py_int x) code)))))"

text \<open>
  \<^verbatim>\<open>prefer_water_with_AL\<close> (lines 445 to 449). Both calls (lines 593 and 605) pass a
  code that is not \<^verbatim>\<open>None\<close>, so the code is a string here.
\<close>

definition prefer_water_with_AL ::
    "string \<Rightarrow> real option \<Rightarrow> real option \<Rightarrow> string \<times> trace_line option" where
  "prefer_water_with_AL code AL TR =
     (case AL of
        Some al \<Rightarrow>
          if 0.02 \<le> al \<and> al \<le> 0.10 \<and> (case TR of None \<Rightarrow> True | Some tr \<Rightarrow> 0.5 \<le> tr \<and> tr \<le> 1.5)
          then (''G'', Some (R_water al))
          else (code, None)
      | None \<Rightarrow> (code, None))"

section \<open>The decision tree\<close>

text \<open>
  The label of an edge of the decision graph is one of the label texts of the source:
  a datatype, one constructor for each text.
\<close>

datatype edge_label =
    E_built                      \<comment> \<open>\<^verbatim>\<open>BSF>=10 or ISF>=10\<close>\<close>
  | E_lcz9                       \<comment> \<open>\<^verbatim>\<open>BSF<20 & SVF>0.8\<close>\<close>
  | E_bsf40                      \<comment> \<open>\<^verbatim>\<open>BSF>=40\<close>\<close>
  | E_bsf20to40                  \<comment> \<open>\<^verbatim>\<open>20<=BSF<40\<close>\<close>
  | E_BH_ge25                    \<comment> \<open>\<^verbatim>\<open>BH>=25\<close>\<close>
  | E_BH_10to25                  \<comment> \<open>\<^verbatim>\<open>10<=BH<25\<close>\<close>
  | E_BH_lt10                    \<comment> \<open>\<^verbatim>\<open>BH<10\<close>\<close>
  | E_BHD_lt9                    \<comment> \<open>\<^verbatim>\<open>BHD<9\<close>\<close>
  | E_BHV_gt145                  \<comment> \<open>\<^verbatim>\<open>BHV>145\<close>\<close>
  | E_BHV_le145                  \<comment> \<open>\<^verbatim>\<open>BHV<=145\<close>\<close>
  | E_SCR_FAR_rule               \<comment> \<open>\<^verbatim>\<open>SCR/FAR rule\<close>\<close>
  | E_PSF_lt10                   \<comment> \<open>\<^verbatim>\<open>PSF<10\<close>\<close>
  | E_PSF_ge10                   \<comment> \<open>\<^verbatim>\<open>PSF>=10\<close>\<close>
  | E_land                       \<comment> \<open>\<^verbatim>\<open>BSF<10 & ISF<10\<close>\<close>
  | E_TH_rule                    \<comment> \<open>\<^verbatim>\<open>TH rule\<close>\<close>
  | E_TR_rule                    \<comment> \<open>\<^verbatim>\<open>TR rule\<close>\<close>
  | E_AL_rule                    \<comment> \<open>\<^verbatim>\<open>AL rule\<close>\<close>
  | E_midrise_fallback           \<comment> \<open>\<^verbatim>\<open>table-fallback\<close>\<close>
  | E_best_match_BH_missing      \<comment> \<open>\<^verbatim>\<open>best-match (BH missing)\<close>\<close>
  | E_best_match                 \<comment> \<open>\<^verbatim>\<open>best-match\<close>\<close>
  | E_best_match_SCR_FAR_missing \<comment> \<open>\<^verbatim>\<open>best-match (SCR/FAR missing)\<close>\<close>
  | E_land_fallback              \<comment> \<open>\<^verbatim>\<open>table fallback\<close>\<close>

text \<open>
  The state \<^verbatim>\<open>classify_flow\<close> builds up (lines 476 to 481), and the dictionary it
  returns. \<^verbatim>\<open>list(nodes)\<close> lists a set in no fixed order: the nodes stay a set.
\<close>

record flow =
  trace :: "trace_line list"
  nodes :: "string set"
  edges :: "(string \<times> string \<times> edge_label) list"

record result = flow +
  lcz :: string
  alternatives :: "scored list"

definition say :: "trace_line \<Rightarrow> flow \<Rightarrow> flow" where
  \<comment> \<open>\<^verbatim>\<open>trace.append(line)\<close>\<close>
  "say line st = st\<lparr>trace := trace st @ [line]\<rparr>"

definition mark :: "string \<Rightarrow> string \<Rightarrow> edge_label \<Rightarrow> flow \<Rightarrow> flow" where
  "mark frm to label st =
     st\<lparr>nodes := insert to (insert frm (nodes st)), edges := edges st @ [(frm, to, label)]\<rparr>"

text \<open>The returned dictionary: its \<^verbatim>\<open>alternatives\<close> entry is a call that may raise.\<close>

definition emit :: "string \<Rightarrow> flow \<Rightarrow> error + scored list \<Rightarrow> error + result" where
  "emit code st alts =
     bind_e alts (\<lambda>a. Inr \<lparr>trace = trace st, nodes = nodes st, edges = edges st,
                            lcz = code, alternatives = a\<rparr>)"

text \<open>
  The scored way out, as written six times in the source (lines 526 to 529, 535 to 537,
  568 to 570, 572 to 574, 576 to 578, 622 to 627): the winner is the first of the
  three best candidates, and \<^verbatim>\<open>winner[0][0]\<close> raises on an empty list.
\<close>

definition fallback :: "params \<Rightarrow> string list \<Rightarrow> string \<Rightarrow> edge_label \<Rightarrow> flow \<Rightarrow> error + result" where
  "fallback p cands frm label st =
     bind_e (best_matches p (Some cands) 3) (\<lambda>winner.
       case winner of
         [] \<Rightarrow> Inl IndexError
       | (c, h, d) # rest \<Rightarrow> emit c (mark frm (''lcz'' @ c) label st) (Inr winner))"

definition present :: "real option \<Rightarrow> (real \<Rightarrow> bool) \<Rightarrow> bool" where
  \<comment> \<open>\<^verbatim>\<open>X is not None and P(X)\<close>\<close>
  "present v P = (case v of None \<Rightarrow> False | Some x \<Rightarrow> P x)"

text \<open>Lines 502 to 529: the midrise node.\<close>

definition flow_midrise :: "params \<Rightarrow> real option \<Rightarrow> real option \<Rightarrow> flow \<Rightarrow> error + result" where
  "flow_midrise p BHD BHV st =
     (let by_BHV =
        (case BHV of
           Some bhv \<Rightarrow>
             if bhv > 145
             then emit ''34'' (mark ''midrise123435'' ''lcz34'' E_BHV_gt145 (say (T_lcz34 bhv) st))
                    (best_matches p (Some [''2'', ''35'']) 2)
             else emit ''35'' (mark ''midrise123435'' ''lcz35'' E_BHV_le145 (say (T_lcz35 bhv) st))
                    (best_matches p (Some [''2'', ''34'']) 2)
         | None \<Rightarrow>
             fallback p [''2'', ''34'', ''35''] ''midrise123435'' E_midrise_fallback
               (say T_midrise_fallback st))
      in case BHD of
           Some bhd \<Rightarrow>
             if bhd < 9
             then emit ''2'' (mark ''midrise123435'' ''lcz2'' E_BHD_lt9 (say (T_lcz2 bhd) st))
                    (best_matches p (Some [''34'', ''35'']) 2)
             else by_BHV
         | None \<Rightarrow> by_BHV)"

text \<open>Lines 494 to 537: the node \<^verbatim>\<open>bsf40\<close>.\<close>

definition flow_bsf40 :: "params \<Rightarrow> real option \<Rightarrow> real option \<Rightarrow> real option \<Rightarrow> flow \<Rightarrow> error + result" where
  "flow_bsf40 p BH BHD BHV st =
     (case BH of
        Some bh \<Rightarrow>
          if bh \<ge> 25
          then emit ''1'' (mark ''bsf40'' ''lcz1'' E_BH_ge25 (say T_lcz1 st)) (best_matches p None 3)
          else if 10 \<le> bh \<and> bh < 25
          then flow_midrise p BHD BHV (mark ''bsf40'' ''midrise123435'' E_BH_10to25 (say T_midrise st))
          else emit ''3'' (mark ''bsf40'' ''lcz3'' E_BH_lt10 (say T_lcz3 st)) (best_matches p None 3)
      | None \<Rightarrow> fallback p [''1'', ''2'', ''3'', ''34'', ''35''] ''bsf40'' E_best_match_BH_missing st)"

text \<open>
  Line 559 reads \<^verbatim>\<open>PSF\<close> again, through \<^verbatim>\<open>float\<close> and outside a \<^verbatim>\<open>try\<close>.
\<close>

definition psf_lt10 :: "params \<Rightarrow> error + bool" where
  "psf_lt10 p =
     (case p ''PSF'' of
        None \<Rightarrow> Inr False
      | Some (Num x) \<Rightarrow> Inr (x < 10)
      | Some (Str t) \<Rightarrow> bind_e (float_or_raise t) (\<lambda>x. Inr (x < 10)))"

text \<open>Lines 551 to 574: the low-rise node.\<close>

definition flow_lowrise :: "params \<Rightarrow> real option \<Rightarrow> real option \<Rightarrow> flow \<Rightarrow> error + result" where
  "flow_lowrise p SCR FAR st =
     (case (SCR, FAR) of
        (Some scr, Some far) \<Rightarrow>
          if 0.3 \<le> scr \<and> scr \<le> 0.75 \<and> far \<le> 0.3
          then emit ''6'' (mark ''lowrise_branch'' ''lcz6'' E_SCR_FAR_rule (say T_lcz6 st)) (best_matches p None 3)
          else if 0.1 \<le> scr \<and> scr < 0.3 \<and> far > 0.3
          then bind_e (psf_lt10 p) (\<lambda>small.
                 if small
                 then emit ''8'' (mark ''lowrise_branch'' ''lcz8'' E_PSF_lt10 (say T_lcz8 st)) (best_matches p None 3)
                 else emit ''8B'' (mark ''lowrise_branch'' ''lcz8B'' E_PSF_ge10 (say T_lcz8B st)) (best_matches p None 3))
          else fallback p [''6'', ''8'', ''8B''] ''lowrise_branch'' E_best_match st
      | _ \<Rightarrow> fallback p [''6'', ''8'', ''8B''] ''lowrise_branch'' E_best_match_SCR_FAR_missing st)"

text \<open>Lines 538 to 578: the node \<^verbatim>\<open>bsf20to40\<close>.\<close>

definition flow_bsf20to40 :: "params \<Rightarrow> real option \<Rightarrow> real option \<Rightarrow> real option \<Rightarrow> flow \<Rightarrow> error + result" where
  "flow_bsf20to40 p BH SCR FAR st =
     (case BH of
        Some bh \<Rightarrow>
          if bh \<ge> 25
          then emit ''4'' (mark ''bsf20to40'' ''lcz4'' E_BH_ge25 (say T_lcz4 st)) (best_matches p None 3)
          else if 10 \<le> bh \<and> bh < 25
          then emit ''5'' (mark ''bsf20to40'' ''lcz5'' E_BH_10to25 (say T_lcz5 st)) (best_matches p None 3)
          else flow_lowrise p SCR FAR (mark ''bsf20to40'' ''lowrise_branch'' E_BH_lt10 (say T_lowrise st))
      | None \<Rightarrow> fallback p [''4'', ''5'', ''6'', ''8'', ''8B''] ''bsf20to40'' E_best_match_BH_missing st)"

text \<open>
  Lines 593 to 600 and 605 to 612: what follows a code found by the \<^verbatim>\<open>TH\<close> rule or
  by the \<^verbatim>\<open>TR\<close> rule. The water reason replaces the reason only when the code changes.
\<close>

definition land_rule ::
    "params \<Rightarrow> string \<Rightarrow> trace_line \<Rightarrow> real option \<Rightarrow> real option \<Rightarrow> edge_label \<Rightarrow> flow \<Rightarrow> error + result" where
  "land_rule p code reason AL TR label st =
     (case prefer_water_with_AL code AL TR of (code2, water_reason) \<Rightarrow>
        (let (code', reason') =
               (if code2 \<noteq> code
                then (code2, (case water_reason of Some r \<Rightarrow> r | None \<Rightarrow> PyNone))
                else (code, reason))
         in emit code' (mark ''land'' (''lcz'' @ code') label (say reason' st))
              (best_matches p (Some [''A'', ''B'', ''C'', ''D'', ''G'']) 3)))"

text \<open>Lines 580 to 627: the land-cover branch.\<close>

definition flow_land :: "params \<Rightarrow> flow \<Rightarrow> error + result" where
  "flow_land p st =
     (let TR = to_num (p ''TR''); AL = to_num (p ''AL''); TH = p ''TH'' in
      bind_e (infer_lcz_from_TH TH) (\<lambda>(code, reason).
        case code of
          Some c \<Rightarrow> land_rule p c reason AL TR E_TH_rule st
        | None \<Rightarrow>
            bind_e (infer_lcz_from_TR TR) (\<lambda>(code, reason).
              case code of
                Some c \<Rightarrow> land_rule p c reason AL TR E_TR_rule st
              | None \<Rightarrow>
                  (case AL of
                     Some al \<Rightarrow>
                       if 0.02 \<le> al \<and> al \<le> 0.10
                       then emit ''G'' (mark ''land'' ''lczG'' E_AL_rule (say (T_AL_water al) st))
                              (best_matches p (Some [''A'', ''B'', ''C'', ''D'']) 3)
                       else fallback p [''A'', ''B'', ''C'', ''D'', ''G''] ''land'' E_land_fallback
                              (say T_land_fallback st)
                   | None \<Rightarrow>
                       fallback p [''A'', ''B'', ''C'', ''D'', ''G''] ''land'' E_land_fallback
                         (say T_land_fallback st)))))"

text \<open>\<^verbatim>\<open>classify_flow\<close> (lines 465 to 627).\<close>

definition classify_flow :: "params \<Rightarrow> error + result" where
  "classify_flow p =
     (let BSF = to_num (p ''BSF''); ISF = to_num (p ''ISF''); SVF = to_num (p ''SVF'');
          BH = to_num (p ''BH''); BHD = to_num (p ''BHD''); BHV = to_num (p ''BHV'');
          SCR = to_num (p ''SCR''); FAR = to_num (p ''FAR'');
          st = \<lparr>trace = [], nodes = {''start''}, edges = []\<rparr>
      in
      if present BSF (\<lambda>x. x \<ge> 10) \<or> present ISF (\<lambda>x. x \<ge> 10) then
        (let st = mark ''start'' ''built'' E_built (say T_built st) in
         if present BSF (\<lambda>x. x < 20) \<and> present SVF (\<lambda>x. x > 0.8)
         then emit ''9'' (mark ''built'' ''lcz9'' E_lcz9 (say T_lcz9 st)) (best_matches p None 3)
         else if present BSF (\<lambda>x. x \<ge> 40)
         then flow_bsf40 p BH BHD BHV (mark ''built'' ''bsf40'' E_bsf40 (say T_bsf40 st))
         else flow_bsf20to40 p BH SCR FAR (mark ''built'' ''bsf20to40'' E_bsf20to40 (say T_bsf20to40 st)))
      else flow_land p (mark ''start'' ''land'' E_land (say T_land st)))"

section \<open>Notions used to state the properties\<close>

text \<open>A call returns a value: no exception leaves it.\<close>

definition returns :: "error + 'a \<Rightarrow> bool" where
  "returns m = (case m of Inl e \<Rightarrow> False | Inr x \<Rightarrow> True)"

text \<open>
  The entry \<^verbatim>\<open>TH\<close> is a text, absent, or the number zero (which the source takes for
  absent): the values on which the text tests of lines 377 and 426 to 428 are modelled.
\<close>

definition th_ok :: "params \<Rightarrow> bool" where
  "th_ok p = (case p ''TH'' of None \<Rightarrow> True | Some (Str t) \<Rightarrow> True | Some (Num x) \<Rightarrow> x = 0)"

text \<open>
  The order of the specification: more hits first, then the smaller distance, then the
  code that is first in lexical order.
\<close>

definition ranks_before :: "scored \<Rightarrow> scored \<Rightarrow> bool" where
  "ranks_before a b =
     (case (a, b) of ((l1, h1, d1), (l2, h2, d2)) \<Rightarrow>
        h1 > h2 \<or> (h1 = h2 \<and> (d1 < d2 \<or> (d1 = d2 \<and> l1 \<le> l2))))"

text \<open>The labels of the five edges on which the classifier ends by scoring.\<close>

definition is_fallback :: "edge_label \<Rightarrow> bool" where
  "is_fallback label \<longleftrightarrow> label \<in> set [E_midrise_fallback, E_best_match_BH_missing, E_best_match,
                                        E_best_match_SCR_FAR_missing, E_land_fallback]"

text \<open>
  The candidates and the \<^verbatim>\<open>topk\<close> that \<^verbatim>\<open>best_matches\<close> is called with at a
  terminal, read off its last edge; \<open>None\<close> is the whole table.
\<close>

definition scope :: "string \<times> string \<times> edge_label \<Rightarrow> string list option \<times> nat" where
  "scope e =
     (case e of (frm, to, label) \<Rightarrow>
        (case label of
           E_BHD_lt9 \<Rightarrow> (Some [''34'', ''35''], 2)
         | E_BHV_gt145 \<Rightarrow> (Some [''2'', ''35''], 2)
         | E_BHV_le145 \<Rightarrow> (Some [''2'', ''34''], 2)
         | E_midrise_fallback \<Rightarrow> (Some [''2'', ''34'', ''35''], 3)
         | E_best_match_BH_missing \<Rightarrow>
             (if frm = ''bsf40'' then Some [''1'', ''2'', ''3'', ''34'', ''35'']
              else Some [''4'', ''5'', ''6'', ''8'', ''8B''], 3)
         | E_best_match \<Rightarrow> (Some [''6'', ''8'', ''8B''], 3)
         | E_best_match_SCR_FAR_missing \<Rightarrow> (Some [''6'', ''8'', ''8B''], 3)
         | E_TH_rule \<Rightarrow> (Some [''A'', ''B'', ''C'', ''D'', ''G''], 3)
         | E_TR_rule \<Rightarrow> (Some [''A'', ''B'', ''C'', ''D'', ''G''], 3)
         | E_land_fallback \<Rightarrow> (Some [''A'', ''B'', ''C'', ''D'', ''G''], 3)
         | E_AL_rule \<Rightarrow> (Some [''A'', ''B'', ''C'', ''D''], 3)
         | _ \<Rightarrow> (None, 3)))"

text \<open>What every returned result satisfies at its last edge.\<close>

definition terminal :: "params \<Rightarrow> result \<Rightarrow> bool" where
  "terminal p r \<longleftrightarrow>
     edges r \<noteq> []
     \<and> best_matches p (fst (scope (last (edges r)))) (snd (scope (last (edges r)))) = Inr (alternatives r)
     \<and> (is_fallback (snd (snd (last (edges r))))
          \<longrightarrow> alternatives r \<noteq> [] \<and> lcz r = fst (hd (alternatives r)))"

text \<open>
  Parameter sets used as examples: a compact midrise block, the high-rise example and
  the sparse example of the specification, and what \<^verbatim>\<open>classify_flow\<close> returns, without
  the node set.
\<close>

definition midrise_example :: params where
  "midrise_example = Map.empty(''BSF'' \<mapsto> Num 45, ''BH'' \<mapsto> Num 20, ''BHD'' \<mapsto> Num 5)"

definition highrise_example :: params where
  "highrise_example = Map.empty(''BSF'' \<mapsto> Num 41, ''ISF'' \<mapsto> Num 50, ''SVF'' \<mapsto> Num 0.3, ''BH'' \<mapsto> Num 26)"

definition sparse_example :: params where
  "sparse_example = Map.empty(''BSF'' \<mapsto> Num 5, ''SVF'' \<mapsto> Num 0.85, ''ISF'' \<mapsto> Num 0)"

definition outcome :: "error + result \<Rightarrow> error + string \<times> trace_line list \<times> (string \<times> string \<times> edge_label) list \<times> scored list" where
  "outcome m = map_sum id (\<lambda>r. (lcz r, trace r, edges r, alternatives r)) m"





text \<open>The test of line 484.\<close>

definition is_built :: "params \<Rightarrow> bool" where
  "is_built p \<longleftrightarrow> present (to_num (p ''BSF'')) (\<lambda>x. x \<ge> 10) \<or> present (to_num (p ''ISF'')) (\<lambda>x. x \<ge> 10)"



text \<open>
  The water condition of the specification: \<^verbatim>\<open>AL\<close> present and within 0.02 and 0.10,
  and \<^verbatim>\<open>TR\<close> absent or within 0.5 and 1.5.
\<close>

definition water_like :: "real option \<Rightarrow> real option \<Rightarrow> bool" where
  "water_like AL TR \<longleftrightarrow>
     present AL (\<lambda>a. 0.02 \<le> a \<and> a \<le> 0.10) \<and> (case TR of None \<Rightarrow> True | Some t \<Rightarrow> 0.5 \<le> t \<and> t \<le> 1.5)"

text \<open>
  The candidate of the land-cover branch: the code, reason and edge label of the \<^verbatim>\<open>TH\<close>
  rule (line 590) or, when that finds no code, of the \<^verbatim>\<open>TR\<close> rule (line 603).
\<close>

definition land_candidate :: "params \<Rightarrow> (string \<times> trace_line \<times> edge_label) option" where
  "land_candidate p =
     (case infer_lcz_from_TH (p ''TH'') of
        Inl e \<Rightarrow> None
      | Inr (Some c, reason) \<Rightarrow> Some (c, reason, E_TH_rule)
      | Inr (None, reason) \<Rightarrow>
          (case infer_lcz_from_TR (to_num (p ''TR'')) of
             Inr (Some c, reason) \<Rightarrow> Some (c, reason, E_TR_rule)
           | _ \<Rightarrow> None))"

text \<open>Further examples: the water override example of the specification, and two texts.\<close>

definition forest_water_example :: params where
  "forest_water_example =
     Map.empty(''BSF'' \<mapsto> Num 5, ''ISF'' \<mapsto> Num 5, ''TH'' \<mapsto> Str ''dense tree'', ''AL'' \<mapsto> Num 0.05, ''TR'' \<mapsto> Num 1)"

definition dash_text_example :: params where
  "dash_text_example = Map.empty(''TH'' \<mapsto> Str ''semi-arid'')"

definition water_text_example :: params where
  "water_text_example = Map.empty(''TH'' \<mapsto> Str ''water'', ''AL'' \<mapsto> Num 0.05)"

text \<open>
  How many entries of a table row are \<^verbatim>\<open>TH\<close> entries whose spec, in lower case, occurs
  in the text \<open>t\<close>; and adding hits to a score that was returned.
\<close>

definition th_hits :: "string \<Rightarrow> (string \<times> string) list \<Rightarrow> nat" where
  "th_hits t items = length (filter (\<lambda>(k, s). k = ''TH'' \<and> sublist (lower s) (lower t)) items)"

definition add_hits :: "nat \<Rightarrow> error + nat \<times> real \<Rightarrow> error + nat \<times> real" where
  "add_hits n m = (case m of Inl e \<Rightarrow> Inl e | Inr (h, d) \<Rightarrow> Inr (h + n, d))"

section \<open>Parsing and evaluating range specifications\<close>

lemma table_parse:
    "parse_bounds ''0.2-0.4'' = Inr (Some (Some 0.2, Some 0.4, K_range))"
    "parse_bounds ''>2'' = Inr (Some (Some 2, None, K_gt))"
    "parse_bounds ''>=3'' = Inr (Some (Some 3, None, K_ge))"
    "parse_bounds ''30-45'' = Inr (Some (Some 30, Some 45, K_range))"
    "parse_bounds ''40-60'' = Inr (Some (Some 40, Some 60, K_range))"
    "parse_bounds ''<10'' = Inr (Some (None, Some 10, K_lt))"
    "parse_bounds ''>=24'' = Inr (Some (Some 24, None, K_ge))"
    "parse_bounds ''-'' = Inr (Some (None, None, K_na))"
    "parse_bounds ''0.1-0.2'' = Inr (Some (Some 0.1, Some 0.2, K_range))"
    "parse_bounds ''8'' = Inr (Some (Some 8, Some 8, K_eq))"
    "parse_bounds ''0.3-0.6'' = Inr (Some (Some 0.3, Some 0.6, K_range))"
    "parse_bounds ''0.75-2'' = Inr (Some (Some 0.75, Some 2, K_range))"
    "parse_bounds ''1.5-3'' = Inr (Some (Some 1.5, Some 3, K_range))"
    "parse_bounds ''30-50'' = Inr (Some (Some 30, Some 50, K_range))"
    "parse_bounds ''<20'' = Inr (Some (None, Some 20, K_lt))"
    "parse_bounds ''9-24'' = Inr (Some (Some 9, Some 24, K_range))"
    "parse_bounds ''<9'' = Inr (Some (None, Some 9, K_lt))"
    "parse_bounds ''6-7'' = Inr (Some (Some 6, Some 7, K_range))"
    "parse_bounds ''0.2-0.6'' = Inr (Some (Some 0.2, Some 0.6, K_range))"
    "parse_bounds ''0.75-1.5'' = Inr (Some (Some 0.75, Some 1.5, K_range))"
    "parse_bounds ''1-1.5'' = Inr (Some (Some 1, Some 1.5, K_range))"
    "parse_bounds ''40-70'' = Inr (Some (Some 40, Some 70, K_range))"
    "parse_bounds ''20-50'' = Inr (Some (Some 20, Some 50, K_range))"
    "parse_bounds ''<30'' = Inr (Some (None, Some 30, K_lt))"
    "parse_bounds ''<=9'' = Inr (Some (None, Some 9, K_le))"
    "parse_bounds ''6'' = Inr (Some (Some 6, Some 6, K_eq))"
    "parse_bounds ''1.2-2.5'' = Inr (Some (Some 1.2, Some 2.5, K_range))"
    "parse_bounds ''25-30'' = Inr (Some (Some 25, Some 30, K_range))"
    "parse_bounds ''12-40'' = Inr (Some (Some 12, Some 40, K_range))"
    "parse_bounds ''>145'' = Inr (Some (Some 145, None, K_gt))"
    "parse_bounds ''0.12-0.25'' = Inr (Some (Some 0.12, Some 0.25, K_range))"
    "parse_bounds ''0.5-0.7'' = Inr (Some (Some 0.5, Some 0.7, K_range))"
    "parse_bounds ''0.75-1.25'' = Inr (Some (Some 0.75, Some 1.25, K_range))"
    "parse_bounds ''2-3'' = Inr (Some (Some 2, Some 3, K_range))"
    "parse_bounds ''20-30'' = Inr (Some (Some 20, Some 30, K_range))"
    "parse_bounds ''30-40'' = Inr (Some (Some 30, Some 40, K_range))"
    "parse_bounds ''7-8'' = Inr (Some (Some 7, Some 8, K_range))"
    "parse_bounds ''1.2-2'' = Inr (Some (Some 1.2, Some 2, K_range))"
    "parse_bounds ''12-20'' = Inr (Some (Some 12, Some 20, K_range))"
    "parse_bounds ''<=145'' = Inr (Some (None, Some 145, K_le))"
    "parse_bounds ''0.5-0.8'' = Inr (Some (Some 0.5, Some 0.8, K_range))"
    "parse_bounds ''0.3-0.75'' = Inr (Some (Some 0.3, Some 0.75, K_range))"
    "parse_bounds ''20-40'' = Inr (Some (Some 20, Some 40, K_range))"
    "parse_bounds ''5-6'' = Inr (Some (Some 5, Some 6, K_range))"
    "parse_bounds ''0.6-0.9'' = Inr (Some (Some 0.6, Some 0.9, K_range))"
    "parse_bounds ''<0.3'' = Inr (Some (None, Some 0.3, K_lt))"
    "parse_bounds ''30-60'' = Inr (Some (Some 30, Some 60, K_range))"
    "parse_bounds ''5'' = Inr (Some (Some 5, Some 5, K_eq))"
    "parse_bounds ''>0.7'' = Inr (Some (Some 0.7, None, K_gt))"
    "parse_bounds ''0.1-0.3'' = Inr (Some (Some 0.1, Some 0.3, K_range))"
    "parse_bounds ''0.8-2.5'' = Inr (Some (Some 0.8, Some 2.5, K_range))"
    "parse_bounds ''40-50'' = Inr (Some (Some 40, Some 50, K_range))"
    "parse_bounds ''0.15-0.25'' = Inr (Some (Some 0.15, Some 0.25, K_range))"
    "parse_bounds ''>0.8'' = Inr (Some (Some 0.8, None, K_gt))"
    "parse_bounds ''0.1-0.25'' = Inr (Some (Some 0.1, Some 0.25, K_range))"
    "parse_bounds ''<=0.3'' = Inr (Some (None, Some 0.3, K_le))"
    "parse_bounds ''60-80'' = Inr (Some (Some 60, Some 80, K_range))"
    "parse_bounds ''<0.4'' = Inr (Some (None, Some 0.4, K_lt))"
    "parse_bounds ''>1'' = Inr (Some (Some 1, None, K_gt))"
    "parse_bounds ''>90'' = Inr (Some (Some 90, None, K_gt))"
    "parse_bounds ''3-30'' = Inr (Some (Some 3, Some 30, K_range))"
    "parse_bounds ''0.25-0.75'' = Inr (Some (Some 0.25, Some 0.75, K_range))"
    "parse_bounds ''3-15'' = Inr (Some (Some 3, Some 15, K_range))"
    "parse_bounds ''0.7-0.9'' = Inr (Some (Some 0.7, Some 0.9, K_range))"
    "parse_bounds ''0.25-1.0'' = Inr (Some (Some 0.25, Some 1.0, K_range))"
    "parse_bounds ''<2'' = Inr (Some (None, Some 2, K_lt))"
    "parse_bounds ''0.15-0.3'' = Inr (Some (Some 0.15, Some 0.3, K_range))"
    "parse_bounds ''4-5'' = Inr (Some (Some 4, Some 5, K_range))"
    "parse_bounds ''>0.9'' = Inr (Some (Some 0.9, None, K_gt))"
    "parse_bounds ''<0.1'' = Inr (Some (None, Some 0.1, K_lt))"
    "parse_bounds ''<1'' = Inr (Some (None, Some 1, K_lt))"
    "parse_bounds ''3-4'' = Inr (Some (Some 3, Some 4, K_range))"
    "parse_bounds ''0.02-0.10'' = Inr (Some (Some 0.02, Some 0.10, K_range))"
    "parse_bounds ''1'' = Inr (Some (Some 1, Some 1, K_eq))"
  by code_simp+

lemma returns_Inr [simp]: "returns (Inr x)" and returns_Inl [simp]: "\<not> returns (Inl e)"
  by (simp_all add: returns_def)

lemma returnsE: "returns m \<Longrightarrow> \<exists>x. m = Inr x"
  by (cases m) (simp_all add: returns_def)

lemma table_specs_parse:
  "(l, spec) \<in> set LCZ_TABLE \<Longrightarrow> (k, s) \<in> set spec \<Longrightarrow> k \<noteq> ''TH'' \<Longrightarrow> \<exists>b. parse_bounds s = Inr (Some b)"
  unfolding LCZ_TABLE_def row_def
  by (elim disjE | simp add: table_parse)+


lemma value_in_spec_returns: "parse_bounds s = Inr b \<Longrightarrow> returns (value_in_spec v s)"
  by (cases v; cases b) (auto simp: value_in_spec_def bind_e_def split: kind.splits)

lemma range_distance_returns: "parse_bounds s = Inr b \<Longrightarrow> returns (range_distance v s)"
  by (cases v; cases b) (auto simp: range_distance_def bind_e_def)

lemma th_match_returns: "th_ok p \<Longrightarrow> returns (th_match (p ''TH'') s)"
  by (auto simp: th_ok_def th_match_def truthy_def split: option.splits pyval.splits)

lemma score_item_returns:
  assumes "th_ok p" and "k = ''TH'' \<or> (\<exists>b. parse_bounds s = Inr b)"
  shows "returns (score_item p (k, s) acc)"
proof (cases "k = ''TH''")
  case True
  with th_match_returns [OF assms(1), of s] show ?thesis
    by (cases acc) (auto simp: score_item_def bind_e_def dest!: returnsE)
next
  case False
  with assms(2) obtain b where b: "parse_bounds s = Inr b" by blast
  obtain i where i: "value_in_spec (to_num (p k)) s = Inr i"
    using value_in_spec_returns [OF b] by (blast dest: returnsE)
  obtain d where d: "range_distance (to_num (p k)) s = Inr d"
    using range_distance_returns [OF b] by (blast dest: returnsE)
  from i d False show ?thesis
    by (cases acc) (simp add: score_item_def bind_e_def Let_def)
qed

lemma score_items_returns:
  "th_ok p \<Longrightarrow> (\<forall>(k, s) \<in> set items. k = ''TH'' \<or> (\<exists>b. parse_bounds s = Inr b))
     \<Longrightarrow> returns (score_items p items acc)"
proof (induction items arbitrary: acc)
  case Nil
  then show ?case by simp
next
  case (Cons item items)
  obtain k s where item: "item = (k, s)" by (cases item)
  from Cons.prems item have "returns (score_item p (k, s) acc)"
    by (intro score_item_returns) auto
  then obtain acc' where "score_item p item acc = Inr acc'"
    using item by (auto dest: returnsE)
  with Cons show ?case by (simp add: bind_e_def)
qed

lemma score_class_returns:
  assumes "th_ok p" and "l \<in> set (map fst LCZ_TABLE)"
  shows "returns (score_class p l)"
proof -
  from assms(2) obtain spec where spec: "map_of LCZ_TABLE l = Some spec"
    by (metis map_of_eq_None_iff not_Some_eq set_map)
  then have mem: "(l, spec) \<in> set LCZ_TABLE" by (rule map_of_SomeD)
  have "\<forall>(k, s) \<in> set spec. k = ''TH'' \<or> (\<exists>b. parse_bounds s = Inr b)"
    using table_specs_parse [OF mem] by blast
  from score_items_returns [OF assms(1) this] spec show ?thesis
    by (simp add: score_class_def)
qed

lemma score_all_returns:
  "th_ok p \<Longrightarrow> set ls \<subseteq> set (map fst LCZ_TABLE)
     \<Longrightarrow> \<exists>scored. score_all p ls = Inr scored \<and> map fst scored = ls"
proof (induction ls)
  case Nil
  then show ?case by simp
next
  case (Cons l ls)
  then obtain scored where "score_all p ls = Inr scored" "map fst scored = ls" by auto
  moreover from Cons.prems obtain h d where "score_class p l = Inr (h, d)"
    using score_class_returns [of p l] by (auto dest!: returnsE)
  ultimately show ?case by (simp add: bind_e_def)
qed

lemma best_matches_returns:
  assumes "th_ok p" and "set ls \<subseteq> set (map fst LCZ_TABLE)"
  shows "\<exists>res. best_matches p (Some ls) k = Inr res \<and> length res = min k (length ls)"
proof -
  from score_all_returns [OF assms] obtain scored
    where "score_all p ls = Inr scored" "map fst scored = ls" by blast
  moreover from this have "length scored = length ls" by (metis length_map)
  ultimately show ?thesis by (simp add: best_matches_def bind_e_def min.commute)
qed


lemma rank_key_le: "rank_key a \<le> rank_key b \<longleftrightarrow> ranks_before a b"
  by (cases a; cases b) (auto simp: rank_key_def ranks_before_def)

lemma sorted_ranked: "sorted_wrt ranks_before (sort_key rank_key xs)"
proof -
  have "sorted (map rank_key (sort_key rank_key xs))" by (rule sorted_sort_key)
  then show ?thesis by (simp add: sorted_map rank_key_le)
qed

lemma parse_dash: "parse_bounds ''-'' = Inr (Some (None, None, K_na))"
  by code_simp

lemma parse_30_45: "parse_bounds ''30-45'' = Inr (Some (Some 30, Some 45, K_range))"
  by code_simp

lemma parse_lt10: "parse_bounds ''<10'' = Inr (Some (None, Some 10, K_lt))"
  by code_simp

lemma parse_words: "parse_bounds ''Dense trees'' = Inr None"
  by code_simp

text \<open>
  C3, at the failing input. The claim: \<^verbatim>\<open>parse_bounds\<close> returns \<^verbatim>\<open>None\<close> and never
  raises, also when the text after a leading \<^verbatim>\<open>>=\<close>, \<^verbatim>\<open><=\<close>, \<^verbatim>\<open>>\<close> or \<^verbatim>\<open><\<close>
  is no number. The code calls \<^verbatim>\<open>float\<close> outside a \<^verbatim>\<open>try\<close> on these four paths
  (lines 22 to 29): \<^verbatim>\<open>parse_bounds(">=abc")\<close> and \<^verbatim>\<open>parse_bounds("<x")\<close> raise
  \<^verbatim>\<open>ValueError\<close>, while the range path and the single-number path catch the same
  failure and return \<^verbatim>\<open>None\<close> (\<^verbatim>\<open>"1-x"\<close>, \<^verbatim>\<open>"abc"\<close>).
\<close>

theorem parse_bounds_raises_after_comparison:
  "parse_bounds ''>=abc'' = Inl ValueError \<and> parse_bounds ''<x'' = Inl ValueError
   \<and> parse_bounds ''abc'' = Inr None \<and> parse_bounds ''1-x'' = Inr None"
  by code_simp

text \<open>
  C9: whenever the spec parses to kind \<^verbatim>\<open>na\<close>, \<^verbatim>\<open>value_in_spec\<close> returns true for
  every value, an absent one included; whenever the spec parses to another kind, it
  returns false for an absent value; and for the spec \<^verbatim>\<open>"30-45"\<close> it returns true
  at 35, false at 50 and false at an absent value.
\<close>

theorem value_in_spec_na_and_absent:
  "(\<forall>spec lo hi v. parse_bounds spec = Inr (Some (lo, hi, K_na))
        \<longrightarrow> value_in_spec v spec = Inr (Some True))
   \<and> (\<forall>spec lo hi k. parse_bounds spec = Inr (Some (lo, hi, k)) \<and> k \<noteq> K_na
        \<longrightarrow> value_in_spec None spec = Inr (Some False))
   \<and> value_in_spec (Some 35) ''30-45'' = Inr (Some True)
   \<and> value_in_spec (Some 50) ''30-45'' = Inr (Some False)
   \<and> value_in_spec None ''30-45'' = Inr (Some False)"
proof (intro conjI allI impI)
  fix spec lo hi v
  assume "parse_bounds spec = Inr (Some (lo, hi, K_na))"
  then show "value_in_spec v spec = Inr (Some True)"
    by (cases v) (simp_all add: value_in_spec_def bind_e_def)
next
  fix spec lo hi k
  assume "parse_bounds spec = Inr (Some (lo, hi, k)) \<and> k \<noteq> K_na"
  then show "value_in_spec None spec = Inr (Some False)"
    by (simp add: value_in_spec_def bind_e_def)
qed (simp_all add: value_in_spec_def bind_e_def parse_30_45)

theorem value_in_spec_na_and_absent_witness:
  "parse_bounds ''-'' = Inr (Some (None, None, K_na))
   \<and> value_in_spec None ''-'' = Inr (Some True)
   \<and> value_in_spec (Some 7) ''-'' = Inr (Some True)
   \<and> parse_bounds ''<10'' = Inr (Some (None, Some 10, K_lt))
   \<and> value_in_spec None ''<10'' = Inr (Some False)"
  using value_in_spec_na_and_absent parse_dash parse_lt10 by simp

text \<open>
  C2, as stated, fails: with the spec \<^verbatim>\<open>"-"\<close>, of kind \<^verbatim>\<open>na\<close>, and an absent
  value \<^verbatim>\<open>range_distance\<close> returns 0.5 and not 0, because line 71 tests the absent
  value before line 73 tests the kind.
\<close>

theorem range_distance_na_absent_counterexample:
  "parse_bounds ''-'' = Inr (Some (None, None, K_na)) \<and> range_distance None ''-'' \<noteq> Inr 0"
  by (simp add: range_distance_def bind_e_def parse_dash)

text \<open>
  C2, amended: \<^verbatim>\<open>range_distance\<close> returns 0 when \<^verbatim>\<open>parse_bounds\<close> returns
  \<^verbatim>\<open>None\<close> for the spec; it returns exactly 0.5 when the value is absent and the spec
  parses, whatever the kind, \<^verbatim>\<open>na\<close> included; and it returns 0 when the kind is
  \<^verbatim>\<open>na\<close> and the value is present.
\<close>

theorem range_distance_absent_before_na:
  "(\<forall>spec v. parse_bounds spec = Inr None \<longrightarrow> range_distance v spec = Inr 0)
   \<and> (\<forall>spec b. parse_bounds spec = Inr (Some b) \<longrightarrow> range_distance None spec = Inr (1 / 2))
   \<and> (\<forall>spec lo hi x. parse_bounds spec = Inr (Some (lo, hi, K_na))
        \<longrightarrow> range_distance (Some x) spec = Inr 0)"
  by (auto simp: range_distance_def bind_e_def)

theorem range_distance_absent_before_na_witness:
  "parse_bounds ''Dense trees'' = Inr None \<and> range_distance (Some 3) ''Dense trees'' = Inr 0
   \<and> parse_bounds ''<10'' = Inr (Some (None, Some 10, K_lt)) \<and> range_distance None ''<10'' = Inr (1 / 2)
   \<and> parse_bounds ''-'' = Inr (Some (None, None, K_na)) \<and> range_distance (Some 3) ''-'' = Inr 0"
  using range_distance_absent_before_na parse_words parse_lt10 parse_dash by simp

section \<open>The scorer\<close>

text \<open>
  C6: \<^verbatim>\<open>best_matches\<close> returns the first \<^verbatim>\<open>topk\<close> of the scored candidates put
  in the order hits descending, then distance ascending, then code ascending: the
  ranked list is a permutation of the scored candidates and is sorted by that order,
  and of two candidates with different hit counts the one with more hits comes first,
  whatever the distances. (The same input gives the same list: \<open>best_matches\<close> is a
  function.)
\<close>

theorem best_matches_ranking:
  assumes "best_matches p cands k = Inr res"
  shows "\<exists>scored ranked.
           score_all p (case cands of None \<Rightarrow> map fst LCZ_TABLE | Some cs \<Rightarrow> cs) = Inr scored
         \<and> mset ranked = mset scored \<and> sorted_wrt ranks_before ranked \<and> res = take k ranked
         \<and> (\<forall>i j. i < length ranked \<and> j < length ranked
                \<and> fst (snd (ranked ! j)) < fst (snd (ranked ! i)) \<longrightarrow> i < j)"
proof -
  from assms obtain scored
    where sc: "score_all p (case cands of None \<Rightarrow> map fst LCZ_TABLE | Some cs \<Rightarrow> cs) = Inr scored"
      and res: "res = take k (sort_key rank_key scored)"
    by (cases "score_all p (case cands of None \<Rightarrow> map fst LCZ_TABLE | Some cs \<Rightarrow> cs)")
       (auto simp: best_matches_def bind_e_def)
  let ?ranked = "sort_key rank_key scored"
  have srt: "sorted_wrt ranks_before ?ranked" by (rule sorted_ranked)
  have "i < j" if "i < length ?ranked" "j < length ?ranked"
      "fst (snd (?ranked ! j)) < fst (snd (?ranked ! i))" for i j
  proof (rule ccontr)
    assume "\<not> i < j"
    with that(3) have "j < i" by (cases "i = j") auto
    from sorted_wrt_nth_less [OF srt this that(1)] that(3) show False
      by (cases "?ranked ! i"; cases "?ranked ! j") (auto simp: ranks_before_def)
  qed
  with sc res srt show ?thesis by (intro exI [of _ scored] exI [of _ ?ranked]) auto
qed

section \<open>The terminals of the decision tree\<close>

lemma emit_terminal:
  assumes "emit c (mark f t l st) (best_matches p cs k) = Inr r"
    and "scope (f, t, l) = (cs, k)" and "\<not> is_fallback l"
  shows "terminal p r"
  using assms
  by (cases "best_matches p cs k") (auto simp: emit_def bind_e_def mark_def terminal_def)

lemma fallback_terminal:
  assumes "fallback p cands f l st = Inr r"
    and "\<And>c. scope (f, ''lcz'' @ c, l) = (Some cands, 3)"
  shows "terminal p r"
  using assms
  by (cases "best_matches p (Some cands) 3")
     (auto simp: fallback_def emit_def bind_e_def mark_def terminal_def split: list.splits)

lemma flow_midrise_terminal: "flow_midrise p BHD BHV st = Inr r \<Longrightarrow> terminal p r"
  unfolding flow_midrise_def Let_def
  by (auto split: option.splits if_splits
        elim!: emit_terminal fallback_terminal simp: scope_def is_fallback_def)

lemma flow_bsf40_terminal: "flow_bsf40 p BH BHD BHV st = Inr r \<Longrightarrow> terminal p r"
  unfolding flow_bsf40_def
  by (auto split: option.splits if_splits
        elim!: emit_terminal fallback_terminal flow_midrise_terminal simp: scope_def is_fallback_def)

lemma flow_lowrise_terminal: "flow_lowrise p SCR FAR st = Inr r \<Longrightarrow> terminal p r"
  unfolding flow_lowrise_def
  by (cases "psf_lt10 p")
     (auto split: option.splits if_splits
        elim!: emit_terminal fallback_terminal simp: scope_def is_fallback_def bind_e_def)

lemma flow_bsf20to40_terminal: "flow_bsf20to40 p BH SCR FAR st = Inr r \<Longrightarrow> terminal p r"
  unfolding flow_bsf20to40_def
  by (auto split: option.splits if_splits
        elim!: emit_terminal fallback_terminal flow_lowrise_terminal simp: scope_def is_fallback_def)

lemma land_rule_terminal:
  "land_rule p c reason AL TR label st = Inr r \<Longrightarrow> label = E_TH_rule \<or> label = E_TR_rule \<Longrightarrow> terminal p r"
  unfolding land_rule_def Let_def
  by (auto split: prod.splits if_splits
        elim!: emit_terminal simp: scope_def is_fallback_def)

lemma flow_land_terminal: "flow_land p st = Inr r \<Longrightarrow> terminal p r"
  unfolding flow_land_def Let_def
  by (cases "infer_lcz_from_TH (p ''TH'')"; cases "infer_lcz_from_TR (to_num (p ''TR''))")
     (auto split: option.splits if_splits prod.splits
        elim!: emit_terminal fallback_terminal land_rule_terminal simp: scope_def is_fallback_def bind_e_def)

lemma classify_flow_terminal: "classify_flow p = Inr r \<Longrightarrow> terminal p r"
  unfolding classify_flow_def Let_def
  by (auto split: if_splits
        elim!: emit_terminal flow_bsf40_terminal flow_bsf20to40_terminal flow_land_terminal
        simp: scope_def is_fallback_def)

section \<open>Evaluating the classifier on the examples\<close>

lemmas eval_defs = classify_flow_def flow_land_def flow_bsf40_def flow_midrise_def flow_bsf20to40_def
  flow_lowrise_def land_rule_def fallback_def emit_def mark_def say_def present_def to_num_def
  best_matches_def score_class_def score_item_def value_in_spec_def range_distance_def bind_e_def
  LCZ_TABLE_def row_def th_match_def truthy_def rank_key_def infer_lcz_from_TH_def infer_lcz_from_TR_def
  prefer_water_with_AL_def TH_TO_LCZ_def TR_BANDS_def lower_def lower_char_def psf_lt10_def Let_def
  sort_key_def table_parse outcome_def

lemma outcomeD:
  "outcome m = Inr (c, t, e, a) \<Longrightarrow> \<exists>r. m = Inr r \<and> lcz r = c \<and> trace r = t \<and> edges r = e \<and> alternatives r = a"
  by (cases m) (auto simp: outcome_def)

lemma classify_midrise_example:
  "outcome (classify_flow midrise_example) =
     Inr (''2'', [T_built, T_bsf40, T_midrise, T_lcz2 5],
          [(''start'', ''built'', E_built), (''built'', ''bsf40'', E_bsf40),
           (''bsf40'', ''midrise123435'', E_BH_10to25), (''midrise123435'', ''lcz2'', E_BHD_lt9)],
          [(''34'', 2, 19), (''35'', 2, 19)])"
  by (simp add: eval_defs midrise_example_def)

lemma classify_highrise_example:
  "outcome (classify_flow highrise_example) =
     Inr (''1'', [T_built, T_bsf40, T_lcz1],
          [(''start'', ''built'', E_built), (''built'', ''bsf40'', E_bsf40), (''bsf40'', ''lcz1'', E_BH_ge25)],
          [(''1'', 6, 7 / 2), (''3'', 5, 41 / 2), (''A'', 5, 149 / 2)])"
  by (simp add: eval_defs highrise_example_def)

lemma classify_sparse_example:
  "outcome (classify_flow sparse_example) =
     Inr (''C'', [T_land, T_land_fallback],
          [(''start'', ''land'', E_land), (''land'', ''lczC'', E_land_fallback)],
          [(''C'', 6, 4), (''G'', 6, 81 / 20), (''B'', 5, 81 / 20)])"
  by (simp add: eval_defs sparse_example_def)

section \<open>The returned code and the alternatives\<close>

text \<open>
  C1, as stated, fails on a definitive branch: for \<^verbatim>\<open>{BSF: 45, BH: 20, BHD: 5}\<close> the
  tree ends on the edge \<^verbatim>\<open>BHD<9\<close> with code \<^verbatim>\<open>"2"\<close>, and the alternatives are
  ranked among \<^verbatim>\<open>["34", "35"]\<close> (line 511): the first of them is \<^verbatim>\<open>"34"\<close>.
\<close>

theorem code_differs_from_first_alternative_counterexample:
  "outcome (classify_flow midrise_example) =
     Inr (''2'', [T_built, T_bsf40, T_midrise, T_lcz2 5],
          [(''start'', ''built'', E_built), (''built'', ''bsf40'', E_bsf40),
           (''bsf40'', ''midrise123435'', E_BH_10to25), (''midrise123435'', ''lcz2'', E_BHD_lt9)],
          [(''34'', 2, 19), (''35'', 2, 19)])
   \<and> ''2'' \<noteq> fst (hd [(''34'', 2::nat, 19::real), (''35'', 2, 19)])"
  using classify_midrise_example by simp

text \<open>
  C1, amended: whenever \<^verbatim>\<open>classify_flow\<close> returns a result that ends on one of the
  five scored fallback edges, the alternatives list is not empty and the returned code
  is the code of its first element.
\<close>

theorem fallback_code_is_first_alternative:
  assumes "classify_flow p = Inr r" and "is_fallback (snd (snd (last (edges r))))"
  shows "alternatives r \<noteq> [] \<and> lcz r = fst (hd (alternatives r))"
  using classify_flow_terminal [OF assms(1)] assms(2) by (simp add: terminal_def)

theorem fallback_code_is_first_alternative_witness:
  "\<exists>r. classify_flow sparse_example = Inr r \<and> is_fallback (snd (snd (last (edges r))))
       \<and> alternatives r \<noteq> [] \<and> lcz r = fst (hd (alternatives r)) \<and> lcz r = ''C''"
proof -
  from outcomeD [OF classify_sparse_example] obtain r
    where r: "classify_flow sparse_example = Inr r" "lcz r = ''C''"
      "edges r = [(''start'', ''land'', E_land), (''land'', ''lczC'', E_land_fallback)]"
    by blast
  then have fb: "is_fallback (snd (snd (last (edges r))))" by (simp add: is_fallback_def)
  from fallback_code_is_first_alternative [OF r(1) fb] r fb show ?thesis by blast
qed

text \<open>
  C4, as stated, fails: for \<^verbatim>\<open>{BSF: 41, ISF: 50, SVF: 0.3, BH: 26}\<close> the tree ends at
  LCZ-1 below the node \<^verbatim>\<open>bsf40\<close>, whose candidates are 1, 2, 3, 34 and 35, and the
  alternatives are ranked over the whole table (line 501): they hold the land-cover
  code \<^verbatim>\<open>"A"\<close>. And the midrise decision for \<^verbatim>\<open>{BSF: 45, BH: 20, BHD: 5}\<close> ranks
  34 and 35 only, not 2, 34 and 35.
\<close>

theorem alternatives_scope_counterexample:
  "map_sum id (\<lambda>r. (lcz r, last (edges r), map fst (alternatives r))) (classify_flow highrise_example)
     = Inr (''1'', (''bsf40'', ''lcz1'', E_BH_ge25), [''1'', ''3'', ''A''])
   \<and> ''A'' \<notin> set [''1'', ''2'', ''3'', ''34'', ''35'']
   \<and> map_sum id (\<lambda>r. (lcz r, last (edges r), map fst (alternatives r))) (classify_flow midrise_example)
     = Inr (''2'', (''midrise123435'', ''lcz2'', E_BHD_lt9), [''34'', ''35''])"
  using outcomeD [OF classify_highrise_example] outcomeD [OF classify_midrise_example]
  by auto

text \<open>
  C4, amended: every returned result has a last edge, and its alternatives are what
  \<^verbatim>\<open>best_matches\<close> returns for the candidates and the \<^verbatim>\<open>topk\<close> fixed by that edge
  (\<open>scope\<close>): the whole table at the definitive built-up terminals, the two other
  midrise codes at LCZ-2, LCZ-34 and LCZ-35, the fallback's own candidates at a scored
  fallback, A, B, C, D, G after the \<^verbatim>\<open>TH\<close> and \<^verbatim>\<open>TR\<close> rules and A, B, C, D after
  the \<^verbatim>\<open>AL\<close> rule.
\<close>

theorem alternatives_by_terminal:
  assumes "classify_flow p = Inr r"
  shows "edges r \<noteq> []
       \<and> best_matches p (fst (scope (last (edges r)))) (snd (scope (last (edges r)))) = Inr (alternatives r)"
  using classify_flow_terminal [OF assms] by (simp add: terminal_def)

theorem alternatives_by_terminal_witness:
  "\<exists>r. classify_flow highrise_example = Inr r \<and> last (edges r) = (''bsf40'', ''lcz1'', E_BH_ge25)
       \<and> best_matches highrise_example None 3 = Inr (alternatives r)
       \<and> map fst (alternatives r) = [''1'', ''3'', ''A'']"
proof -
  from outcomeD [OF classify_highrise_example] obtain r
    where r: "classify_flow highrise_example = Inr r"
      "edges r = [(''start'', ''built'', E_built), (''built'', ''bsf40'', E_bsf40), (''bsf40'', ''lcz1'', E_BH_ge25)]"
      "alternatives r = [(''1'', 6, 7 / 2), (''3'', 5, 41 / 2), (''A'', 5, 149 / 2)]"
    by blast
  from alternatives_by_terminal [OF r(1)] r show ?thesis
    by (intro exI [of _ r]) (simp add: scope_def)
qed

text \<open>The ranking of C6 on the sparse example: C before G on distance, B last on hits.\<close>

theorem best_matches_ranking_witness:
  "\<exists>res. best_matches sparse_example (Some [''A'', ''B'', ''C'', ''D'', ''G'']) 3 = Inr res
        \<and> map fst res = [''C'', ''G'', ''B'']
        \<and> (\<exists>scored ranked. score_all sparse_example [''A'', ''B'', ''C'', ''D'', ''G''] = Inr scored
              \<and> mset ranked = mset scored \<and> sorted_wrt ranks_before ranked \<and> res = take 3 ranked)"
proof -
  from outcomeD [OF classify_sparse_example] obtain r
    where r: "classify_flow sparse_example = Inr r"
      "edges r = [(''start'', ''land'', E_land), (''land'', ''lczC'', E_land_fallback)]"
      "alternatives r = [(''C'', 6, 4), (''G'', 6, 81 / 20), (''B'', 5, 81 / 20)]"
    by blast
  from classify_flow_terminal [OF r(1)] r
  have bm: "best_matches sparse_example (Some [''A'', ''B'', ''C'', ''D'', ''G'']) 3 = Inr (alternatives r)"
    by (simp add: terminal_def scope_def)
  from best_matches_ranking [OF bm] bm r(3) show ?thesis by auto
qed

section \<open>The classifier returns\<close>







lemma table_codes:
  "fst ` set LCZ_TABLE = set [''1'', ''2'', ''3'', ''34'', ''4'', ''35'', ''5'', ''6'', ''8'', ''8B'', ''9'',
                                  ''A'', ''B'', ''C'', ''D'', ''G'']"
  by (simp add: LCZ_TABLE_def)













section \<open>The start of the tree and the sparse shortcut\<close>


















section \<open>The water override\<close>

lemma infer_TH_th_ok: "infer_lcz_from_TH (p ''TH'') = Inr x \<Longrightarrow> th_ok p"
  by (auto simp: infer_lcz_from_TH_def th_ok_def truthy_def split: option.splits pyval.splits if_splits)

lemma land_rule_result:
  assumes "best_matches p (Some [''A'', ''B'', ''C'', ''D'', ''G'']) 3 = Inr alts"
  shows "\<exists>r. land_rule p c reason AL TR label st = Inr r
           \<and> lcz r = (if water_like AL TR then ''G'' else c)
           \<and> trace r = trace st @ [case AL of
                                      Some al \<Rightarrow> if water_like AL TR \<and> c \<noteq> ''G'' then R_water al else reason
                                    | None \<Rightarrow> reason]
           \<and> edges r = edges st @ [(''land'', ''lcz'' @ lcz r, label)]"
  using assms
  by (auto simp: land_rule_def prefer_water_with_AL_def water_like_def present_def Let_def
        emit_def bind_e_def mark_def say_def split: option.splits)

lemma land_candidate_forest:
  "land_candidate forest_water_example = Some (''A'', R_TH_match ''dense tree'' ''A'', E_TH_rule)"
  by (simp add: land_candidate_def forest_water_example_def infer_lcz_from_TH_def truthy_def
        TH_TO_LCZ_def lower_def lower_char_def sublist_code)

lemma land_candidate_water_text:
  "land_candidate water_text_example = Some (''G'', R_TH_match ''water'' ''G'', E_TH_rule)"
  by (simp add: land_candidate_def water_text_example_def infer_lcz_from_TH_def truthy_def
        TH_TO_LCZ_def lower_def lower_char_def sublist_code)

lemma classify_water_text_example:
  "map_sum id (\<lambda>r. (lcz r, trace r)) (classify_flow water_text_example)
     = Inr (''G'', [T_land, R_TH_match ''water'' ''G''])"
  by (simp add: eval_defs water_text_example_def sublist_code)

text \<open>
  C7, as stated, fails where the candidate is \<^verbatim>\<open>"G"\<close> already: for
  \<^verbatim>\<open>{TH: "water", AL: 0.05}\<close> the water condition holds and the code is
  \<^verbatim>\<open>"G"\<close>, but the trace keeps the reason of the \<^verbatim>\<open>TH\<close> rule, since line 594
  replaces the reason only when the override changes the code.
\<close>

theorem water_text_keeps_reason_counterexample:
  "\<not> is_built water_text_example
   \<and> land_candidate water_text_example = Some (''G'', R_TH_match ''water'' ''G'', E_TH_rule)
   \<and> water_like (to_num (water_text_example ''AL'')) (to_num (water_text_example ''TR''))
   \<and> map_sum id (\<lambda>r. (lcz r, trace r)) (classify_flow water_text_example)
       = Inr (''G'', [T_land, R_TH_match ''water'' ''G''])"
  using land_candidate_water_text classify_water_text_example
  by (simp add: is_built_def water_like_def present_def to_num_def water_text_example_def)

text \<open>
  C7, amended: in the land-cover branch, with a candidate from the \<^verbatim>\<open>TH\<close> rule or
  the \<^verbatim>\<open>TR\<close> rule, the classifier returns, the code is \<^verbatim>\<open>"G"\<close> when the water
  condition holds and the candidate otherwise, and the reason in the trace is the
  override reason exactly when the water condition holds and the candidate is not
  \<^verbatim>\<open>"G"\<close> already; otherwise it is the reason of the rule. In particular
  \<^verbatim>\<open>TH = "dense tree"\<close>, \<^verbatim>\<open>AL = 0.05\<close>, \<^verbatim>\<open>TR = 1\<close> gives \<^verbatim>\<open>"G"\<close> with the
  override reason, as the instance after the theorem shows.
\<close>

theorem water_override_when_code_changes:
  assumes "\<not> is_built p" and "land_candidate p = Some (c, reason, label)"
  shows "\<exists>r. classify_flow p = Inr r
           \<and> lcz r = (if water_like (to_num (p ''AL'')) (to_num (p ''TR'')) then ''G'' else c)
           \<and> trace r = [T_land,
                         case to_num (p ''AL'') of
                           Some al \<Rightarrow> if water_like (to_num (p ''AL'')) (to_num (p ''TR'')) \<and> c \<noteq> ''G''
                                      then R_water al else reason
                         | None \<Rightarrow> reason]
           \<and> last (edges r) = (''land'', ''lcz'' @ lcz r, label)"
proof -
  let ?st = "mark ''start'' ''land'' E_land (say T_land \<lparr>trace = [], nodes = {''start''}, edges = []\<rparr>)"
  from assms(2) obtain x where "infer_lcz_from_TH (p ''TH'') = Inr x"
    by (cases "infer_lcz_from_TH (p ''TH'')") (auto simp: land_candidate_def)
  then have "th_ok p" by (rule infer_TH_th_ok)
  then obtain alts where alts: "best_matches p (Some [''A'', ''B'', ''C'', ''D'', ''G'']) 3 = Inr alts"
    using best_matches_returns [of p "[''A'', ''B'', ''C'', ''D'', ''G'']" 3] by (auto simp: table_codes)
  from assms(1) have fl: "classify_flow p = flow_land p ?st"
    by (simp add: classify_flow_def Let_def is_built_def)
  from assms(2) have "flow_land p ?st
      = land_rule p c reason (to_num (p ''AL'')) (to_num (p ''TR'')) label ?st"
    by (auto simp: land_candidate_def flow_land_def Let_def bind_e_def
          split: sum.splits option.splits prod.splits)
  with fl land_rule_result [OF alts, of c reason "to_num (p ''AL'')" "to_num (p ''TR'')" label ?st]
  show ?thesis by (auto simp: mark_def say_def)
qed

theorem water_override_when_code_changes_witness:
  "\<not> is_built forest_water_example
   \<and> land_candidate forest_water_example = Some (''A'', R_TH_match ''dense tree'' ''A'', E_TH_rule)
   \<and> (\<exists>r. classify_flow forest_water_example = Inr r \<and> lcz r = ''G''
          \<and> trace r = [T_land, R_water 0.05] \<and> last (edges r) = (''land'', ''lczG'', E_TH_rule))"
proof -
  have nb: "\<not> is_built forest_water_example"
    by (simp add: is_built_def present_def to_num_def forest_water_example_def)
  have w: "water_like (to_num (forest_water_example ''AL'')) (to_num (forest_water_example ''TR''))"
      and al: "to_num (forest_water_example ''AL'') = Some 0.05"
    by (simp_all add: water_like_def present_def to_num_def forest_water_example_def)
  from water_override_when_code_changes [OF nb land_candidate_forest] w al nb land_candidate_forest
  show ?thesis by auto
qed

section \<open>The text parameter in the scorer\<close>

lemma score_item_shift: "score_item q item (h + n, d) = add_hits n (score_item q item (h, d))"
  by (cases item) (auto simp: score_item_def bind_e_def Let_def add_hits_def split: sum.splits)

lemma score_items_shift: "score_items q items (h + n, d) = add_hits n (score_items q items (h, d))"
proof (induction items arbitrary: h d)
  case Nil
  then show ?case by (simp add: add_hits_def)
next
  case (Cons item items)
  show ?case
  proof (cases "score_item q item (h, d)")
    case (Inl e)
    then show ?thesis by (simp add: score_item_shift bind_e_def add_hits_def)
  next
    case (Inr acc)
    obtain h' d' where "acc = (h', d')" by (cases acc)
    with Inr Cons.IH [of h' d'] show ?thesis by (simp add: score_item_shift bind_e_def add_hits_def)
  qed
qed

lemma add_hits_add_hits: "add_hits n (add_hits m x) = add_hits (m + n) x"
  by (auto simp: add_hits_def split: sum.splits)

lemma score_items_without_TH:
  assumes "p ''TH'' = Some (Str t)" and "t \<noteq> []"
    and "q ''TH'' = None" and "\<And>k. k \<noteq> ''TH'' \<Longrightarrow> q k = p k"
  shows "score_items p items (h, d) = add_hits (th_hits t items) (score_items q items (h, d))"
proof (induction items arbitrary: h d)
  case Nil
  then show ?case by (simp add: th_hits_def add_hits_def)
next
  case (Cons item items)
  obtain k s where item: "item = (k, s)" by (cases item)
  show ?case
  proof (cases "k = ''TH''")
    case True
    let ?n = "if sublist (lower s) (lower t) then 1 else 0 :: nat"
    from assms True item
    have a: "score_item p item (h, d) = Inr (h + ?n, d)"
      and b: "score_item q item (h, d) = Inr (h, d)"
      by (simp_all add: score_item_def th_match_def truthy_def bind_e_def)
    have n: "th_hits t (item # items) = ?n + th_hits t items"
      using True item by (simp add: th_hits_def)
    have "score_items p (item # items) (h, d) = score_items p items (h + ?n, d)"
      using a by (simp add: bind_e_def)
    also have "\<dots> = add_hits (th_hits t items) (score_items q items (h + ?n, d))"
      by (rule Cons.IH)
    also have "\<dots> = add_hits (th_hits t items) (add_hits ?n (score_items q items (h, d)))"
      by (simp only: score_items_shift)
    also have "\<dots> = add_hits (th_hits t (item # items)) (score_items q items (h, d))"
      by (simp only: add_hits_add_hits n)
    also have "score_items q items (h, d) = score_items q (item # items) (h, d)"
      using b by (simp add: bind_e_def)
    finally show ?thesis .
  next
    case False
    with item assms(4) have same: "score_item p item (h, d) = score_item q item (h, d)"
      by (simp add: score_item_def)
    have n: "th_hits t (item # items) = th_hits t items"
      using False item by (simp add: th_hits_def)
    show ?thesis
    proof (cases "score_item q item (h, d)")
      case (Inl e)
      with same show ?thesis by (simp add: bind_e_def add_hits_def)
    next
      case (Inr acc)
      obtain h' d' where "acc = (h', d')" by (cases acc)
      with Inr same n Cons.IH [of h' d'] show ?thesis by (simp add: bind_e_def)
    qed
  qed
qed

lemma sublist_single: "sublist [c] xs \<longleftrightarrow> c \<in> set xs"
  by (induction xs) (auto simp: sublist_Cons_right)

lemma lower_char_dash: "lower_char c = CHR ''-'' \<longleftrightarrow> c = CHR ''-''"
  by (auto simp: lower_char_def char_of_eq_iff)

lemma dash_in_lower: "CHR ''-'' \<in> set (lower t) \<longleftrightarrow> CHR ''-'' \<in> set t"
  by (induction t) (auto simp: lower_def lower_char_dash eq_commute [of "CHR ''-''"])

lemma table_row_keys:
  "(l, spec) \<in> set LCZ_TABLE \<Longrightarrow>
     map fst spec = [''SVF'', ''SCR'', ''FAR'', ''BSF'', ''ISF'', ''PSF'', ''BH'', ''BHD'', ''BHV'', ''AL'', ''TH'', ''TR'']"
  unfolding LCZ_TABLE_def row_def
  by (elim disjE | simp)+

lemma th_hits_row:
  assumes "map fst spec = [''SVF'', ''SCR'', ''FAR'', ''BSF'', ''ISF'', ''PSF'', ''BH'', ''BHD'', ''BHV'', ''AL'', ''TH'', ''TR'']"
    and "map_of spec ''TH'' = Some s"
  shows "th_hits t spec = (if sublist (lower s) (lower t) then 1 else 0)"
  using assms by (auto simp: th_hits_def map_eq_Cons_conv)

text \<open>
  C10: \<^verbatim>\<open>score_class\<close> tests \<^verbatim>\<open>TH\<close> by looking for the spec of the table, in lower
  case and as it is written, inside the text in lower case; the spec \<^verbatim>\<open>"-"\<close>, which
  \<^verbatim>\<open>parse_bounds\<close> reads as kind \<^verbatim>\<open>na\<close>, is looked for like any other. So for a
  text that holds the character \<^verbatim>\<open>-\<close>, every code of the table whose \<^verbatim>\<open>TH\<close> spec
  is \<^verbatim>\<open>"-"\<close> scores one hit more than it does without the text, at the same distance.
\<close>

theorem th_dash_spec_counts_as_hit:
  "(\<forall>t spec_str. th_match (Some (Str t)) spec_str = Inr (t \<noteq> [] \<and> sublist (lower spec_str) (lower t)))
   \<and> parse_bounds ''-'' = Inr (Some (None, None, K_na))
   \<and> (\<forall>p t l spec. p ''TH'' = Some (Str t) \<and> CHR ''-'' \<in> set t
          \<and> map_of LCZ_TABLE l = Some spec \<and> map_of spec ''TH'' = Some ''-''
        \<longrightarrow> (\<exists>h d. score_class (p(''TH'' := None)) l = Inr (h, d) \<and> score_class p l = Inr (Suc h, d)))"
proof (intro conjI allI impI)
  fix t spec_str
  show "th_match (Some (Str t)) spec_str = Inr (t \<noteq> [] \<and> sublist (lower spec_str) (lower t))"
    by (simp add: th_match_def truthy_def)
next
  show "parse_bounds ''-'' = Inr (Some (None, None, K_na))" by (rule parse_dash)
next
  fix p :: params and t l spec
  assume a: "p ''TH'' = Some (Str t) \<and> CHR ''-'' \<in> set t
          \<and> map_of LCZ_TABLE l = Some spec \<and> map_of spec ''TH'' = Some ''-''"
  let ?q = "p(''TH'' := None)"
  from a have mem: "(l, spec) \<in> set LCZ_TABLE" by (blast dest: map_of_SomeD)
  from a have ne: "t \<noteq> []" by auto
  have "lower ''-'' = ''-''" by (simp add: lower_def lower_char_def)
  with a have "sublist (lower ''-'') (lower t)" by (simp add: sublist_single dash_in_lower)
  with th_hits_row [OF table_row_keys [OF mem], of "''-''" t] a
  have one: "th_hits t spec = 1" by simp
  have "th_ok ?q" by (simp add: th_ok_def)
  moreover from mem have "l \<in> set (map fst LCZ_TABLE)" by force
  ultimately have "returns (score_class ?q l)" by (rule score_class_returns)
  then obtain h d where q: "score_class ?q l = Inr (h, d)" by (auto dest!: returnsE)
  with a have qi: "score_items ?q spec (0, 0) = Inr (h, d)" by (simp add: score_class_def)
  from a have "score_class p l = score_items p spec (0, 0)" by (simp add: score_class_def)
  also have "\<dots> = add_hits (th_hits t spec) (score_items ?q spec (0, 0))"
    using a ne by (intro score_items_without_TH [of p t]) auto
  also have "\<dots> = Inr (Suc h, d)" by (simp add: one qi add_hits_def)
  finally show "\<exists>h d. score_class ?q l = Inr (h, d) \<and> score_class p l = Inr (Suc h, d)"
    using q by blast
qed

theorem th_dash_spec_counts_as_hit_witness:
  "dash_text_example ''TH'' = Some (Str ''semi-arid'') \<and> CHR ''-'' \<in> set ''semi-arid''
   \<and> score_class (dash_text_example(''TH'' := None)) ''1'' = Inr (2, 11 / 2)
   \<and> score_class dash_text_example ''1'' = Inr (3, 11 / 2)"
proof -
  have th: "dash_text_example ''TH'' = Some (Str ''semi-arid'')" and d: "CHR ''-'' \<in> set ''semi-arid''"
    by (simp_all add: dash_text_example_def)
  obtain spec where sp: "map_of LCZ_TABLE ''1'' = Some spec" "map_of spec ''TH'' = Some ''-''"
    by (simp add: LCZ_TABLE_def row_def)
  have without: "score_class (dash_text_example(''TH'' := None)) ''1'' = Inr (2, 11 / 2)"
    by (simp add: eval_defs dash_text_example_def)
  from th_dash_spec_counts_as_hit th d sp
  obtain h e where "score_class (dash_text_example(''TH'' := None)) ''1'' = Inr (h, e)"
      "score_class dash_text_example ''1'' = Inr (Suc h, e)"
    by blast
  with without th d show ?thesis by simp
qed

end
